theory Spec2Isabelle
  imports Main "HOL-Library.AList"
begin

section \<open>Faults\<close>

text \<open>
  Modelled from the spec: the exception classes (\<^verbatim>\<open>exceptions.py\<close> and \<^verbatim>\<open>actions.py\<close>
  are not among the sources), as far as \<^verbatim>\<open>workflow.py\<close> tells them apart; the error
  taxonomy keeps the runtime-mismatch and the action-failed fault apart. The handlers of the source
  are \<^verbatim>\<open>except MisMatchRuntimeError\<close> (the gate), \<^verbatim>\<open>except ActionFailedError\<close> and
  \<^verbatim>\<open>except Exception\<close> (the pipeline). \<open>TypeError\<close> is what Python raises when the gate
  iterates over \<^verbatim>\<open>None\<close>. \<open>OtherException\<close> stands for every other class derived from
  \<^verbatim>\<open>Exception\<close>, \<open>NonException\<close> for the classes derived from \<^verbatim>\<open>BaseException\<close> only
  (\<^verbatim>\<open>KeyboardInterrupt\<close>, \<^verbatim>\<open>SystemExit\<close>), which \<^verbatim>\<open>except Exception\<close> does not catch.
\<close>

datatype exn_class =
  MisMatchRuntimeError | ActionFailedError | TypeError | OtherException | NonException

text \<open>A raised exception: its class and the text \<^verbatim>\<open>str(ex)\<close> gives.\<close>

datatype exn = Exn (exn_class: exn_class) (exn_str: string)

definition is_Exception :: "exn \<Rightarrow> bool" where
  "is_Exception ex = (exn_class ex \<noteq> NonException)"

text \<open>
  What leaves \<^verbatim>\<open>run()\<close>: one of the two workflow-level errors the source constructs with
  \<^verbatim>\<open>workflow_name\<close>, \<^verbatim>\<open>action_name\<close> and \<^verbatim>\<open>reason\<close>, or an exception of a collaborator
  that no handler caught.
\<close>

datatype run_error =
  WorkflowFailedError (workflow_name: "string option") (action_name: "string option")
    (reason: string)
| WorkflowUnknownError (workflow_name: "string option") (action_name: "string option")
    (reason: string)
| Propagated exn

section \<open>Collaborators\<close>

text \<open>
  What the run observably does to its collaborators, in order: calls of the two
  extension points, reads of a resolver's \<^verbatim>\<open>exec_paths\<close>, calls of \<^verbatim>\<open>validate\<close>
  (with the dictionary key of the requirement and the candidate path) and calls of an
  action's \<^verbatim>\<open>execute\<close>.
\<close>

datatype event =
  GetResolvers | GetValidators | ExecPaths string | Validate string string | Execute string

text \<open>
  Modelled from the spec: a Resolver (\<^verbatim>\<open>path_resolver.py\<close> is not among the sources)
  exposes a logical binary name, \<^verbatim>\<open>binary\<close>, and an ordered sequence of candidate paths,
  \<^verbatim>\<open>exec_paths\<close>.
\<close>

record resolver =
  binary :: string
  exec_paths :: "string list"

text \<open>
  Modelled from the spec: a Validator (\<^verbatim>\<open>validator.py\<close> is not among the sources).
  \<^verbatim>\<open>validator.validate(path)\<close> returns a value (a path, or \<^verbatim>\<open>None\<close>) or raises; the
  answer depends on the path only.
\<close>

datatype vresult = Returns "string option" | Raises exn

record validator =
  validate :: "string \<Rightarrow> vresult"

text \<open>
  The value held by \<^verbatim>\<open>BinaryPath.binary_path\<close>: \<^verbatim>\<open>None\<close>, one path (the gate writes the
  validated path there) or a list of paths.
\<close>

datatype pathval = PyNone | PyStr string | PyList "string list"

text \<open>
  Modelled from the spec: the class \<^verbatim>\<open>BinaryPath\<close> (\<^verbatim>\<open>binary_path.py\<close> is not among the
  sources). A Binary Requirement binds a logical binary name to one resolver, one
  validator and an optional override path; \<^verbatim>\<open>workflow.py\<close> reads \<^verbatim>\<open>resolver\<close>,
  \<^verbatim>\<open>validator\<close>, \<^verbatim>\<open>path_provided\<close> and \<^verbatim>\<open>binary_path\<close>, and assigns \<^verbatim>\<open>binary_path\<close>.
\<close>

record BinaryPath =
  resolver :: resolver
  validator :: validator
  bp_binary :: string
  binary_path :: pathval
  path_provided :: bool

text \<open>
  Modelled from the spec: \<^verbatim>\<open>BinaryPath(resolver=, validator=, binary=)\<close> as
  \<^verbatim>\<open>workflow.py\<close> calls it, with no override path supplied.
\<close>

definition new_BinaryPath :: "resolver \<Rightarrow> validator \<Rightarrow> string \<Rightarrow> BinaryPath" where
  "new_BinaryPath r v b =
     \<lparr>resolver = r, validator = v, bp_binary = b, binary_path = PyNone, path_provided = False\<rparr>"

text \<open>
  Modelled from the spec: an Action (\<^verbatim>\<open>actions.py\<close> is not among the sources), with its
  \<^verbatim>\<open>NAME\<close> and what \<^verbatim>\<open>execute()\<close> does: it completes (\<open>None\<close>) or raises.
\<close>

record action =
  aNAME :: string
  execute :: "exn option"

section \<open>Workflow types and the registry\<close>

text \<open>The named tuple \<^verbatim>\<open>Capability\<close>; a component may be \<^verbatim>\<open>None\<close>.\<close>

record Capability =
  language :: "string option"
  dependency_manager :: "string option"
  application_framework :: "string option"

text \<open>
  A workflow class as the metaclass sees it: \<^verbatim>\<open>__name__\<close>, \<^verbatim>\<open>__TESTING__\<close>, \<^verbatim>\<open>NAME\<close>
  and \<^verbatim>\<open>CAPABILITY\<close>. \<open>NAME = None\<close> stands for a value that is not a string (the
  inherited default is \<^verbatim>\<open>None\<close>), \<open>CAPABILITY = None\<close> for a value that is not a
  \<^verbatim>\<open>Capability\<close>.
\<close>

record wf_class =
  class_name :: string
  TESTING :: bool
  NAME :: "string option"
  CAPABILITY :: "Capability option"

text \<open>
  Modelled from the spec: \<^verbatim>\<open>DEFAULT_REGISTRY\<close> (\<^verbatim>\<open>registry.py\<close> is not among the
  sources), a mapping from Capability Key to workflow type with structural equality of
  keys: \<^verbatim>\<open>register(key, workflowType)\<close> inserts or overwrites the mapping for the key,
  \<^verbatim>\<open>lookup(key)\<close> gives the type or not found.
\<close>

type_synonym registry = "Capability \<rightharpoonup> wf_class"

definition registry_setitem :: "registry \<Rightarrow> Capability \<Rightarrow> wf_class \<Rightarrow> registry" where
  "registry_setitem reg key c = reg(key \<mapsto> c)"

definition registry_lookup :: "registry \<Rightarrow> Capability \<Rightarrow> wf_class option" where
  "registry_lookup reg key = reg key"

text \<open>
  \<^verbatim>\<open>_WorkflowMetaClass.__new__\<close>, run when a workflow class is defined: the
  \<^verbatim>\<open>ValueError\<close> raised, if any, with its message, and the registry afterwards.
\<close>

definition metaclass_new :: "registry \<Rightarrow> wf_class \<Rightarrow> string option \<times> registry" where
  "metaclass_new reg c =
     (if class_name c = ''BaseWorkflow'' \<or> TESTING c then (None, reg)
      else case NAME c of
        None \<Rightarrow> (Some ''Workflow must provide a valid name'', reg)
      | Some n \<Rightarrow>
          (case CAPABILITY c of
             None \<Rightarrow> (Some (''Workflow '' @ [CHR 0x27] @ n @ [CHR 0x27]
                           @ '' must register valid capabilities''), reg)
           | Some cap \<Rightarrow> (None, registry_setitem reg cap c)))"

section \<open>Workflow instances\<close>

text \<open>
  The state of a workflow instance that \<^verbatim>\<open>run()\<close> touches: its class (for \<^verbatim>\<open>self.NAME\<close>),
  \<^verbatim>\<open>self.actions\<close>, \<^verbatim>\<open>self._binaries\<close> (a dictionary in insertion order) and what the
  two overridable methods \<^verbatim>\<open>get_resolvers()\<close> and \<^verbatim>\<open>get_validators()\<close> return. The
  directories, the manifest path and the option fields set by \<^verbatim>\<open>__init__\<close> are not read
  by \<^verbatim>\<open>run()\<close>.
\<close>

record workflow =
  cls :: wf_class
  actions :: "action list"
  priv_binaries :: "(string \<times> BinaryPath) list"
  get_resolvers :: "resolver list"
  get_validators :: "validator list"

text \<open>\<^verbatim>\<open>__init__\<close>: no action registered, \<^verbatim>\<open>_binaries\<close> is the empty dictionary.\<close>

definition init :: "wf_class \<Rightarrow> resolver list \<Rightarrow> validator list \<Rightarrow> workflow" where
  "init c rs vs =
     \<lparr>cls = c, actions = [], priv_binaries = [], get_resolvers = rs, get_validators = vs\<rparr>"

text \<open>
  The dictionary comprehension of the \<^verbatim>\<open>binaries\<close> property over
  \<^verbatim>\<open>zip(resolvers, validators)\<close>: a key seen again keeps its position and takes the
  new value.
\<close>

definition pair_binaries :: "resolver list \<Rightarrow> validator list \<Rightarrow> (string \<times> BinaryPath) list" where
  "pair_binaries rs vs =
     foldl (\<lambda>d (r, v). AList.update (binary r) (new_BinaryPath r v (binary r)) d) [] (zip rs vs)"

text \<open>
  The getter of the \<^verbatim>\<open>binaries\<close> property: the dictionary, the calls it made and the
  instance afterwards.
\<close>

definition binaries :: "workflow \<Rightarrow> (string \<times> BinaryPath) list \<times> event list \<times> workflow" where
  "binaries w =
     (if priv_binaries w = []
      then (let d = pair_binaries (get_resolvers w) (get_validators w)
            in (d, [GetResolvers, GetValidators], w\<lparr>priv_binaries := d\<rparr>))
      else (priv_binaries w, [], w))"

text \<open>The setter of the \<^verbatim>\<open>binaries\<close> property.\<close>

definition set_binaries :: "workflow \<Rightarrow> (string \<times> BinaryPath) list \<Rightarrow> workflow" where
  "set_binaries w d = w\<lparr>priv_binaries := d\<rparr>"

section \<open>The validation gate\<close>

text \<open>Python's \<^verbatim>\<open>for executable_path in exec_paths\<close> on each kind of value.\<close>

fun py_iter :: "pathval \<Rightarrow> exn + string list" where
  "py_iter PyNone = Inl (Exn TypeError ''NoneType object is not iterable'')"
| "py_iter (PyStr s) = Inr (map (\<lambda>c. [c]) s)"
| "py_iter (PyList ps) = Inr ps"

text \<open>
  Line 42: the resolver's \<^verbatim>\<open>exec_paths\<close> is read only when \<^verbatim>\<open>path_provided\<close> is not
  set; otherwise the candidates are whatever \<^verbatim>\<open>binary_path\<close> holds.
\<close>

definition select_exec_paths :: "string \<Rightarrow> BinaryPath \<Rightarrow> (exn + string list) \<times> event list" where
  "select_exec_paths b bp =
     (if \<not> path_provided bp then (Inr (exec_paths (resolver bp)), [ExecPaths b])
      else (py_iter (binary_path bp), []))"

text \<open>\<^verbatim>\<open>if valid_path:\<close> holds for a non-empty string only.\<close>

fun truthy :: "string option \<Rightarrow> bool" where
  "truthy None = False"
| "truthy (Some s) = (s \<noteq> [])"

datatype attempt = Accepted string | Exhausted | Faulted exn

definition logged :: "event \<Rightarrow> 'a \<times> event list \<Rightarrow> 'a \<times> event list" where
  "logged e r = (fst r, e # snd r)"

text \<open>
  The inner loop (lines 43 to 53) over the candidates of one requirement: a
  \<^verbatim>\<open>MisMatchRuntimeError\<close> is caught and the next candidate tried, any other exception
  leaves the loop, a truthy result ends it. A truthy result is \<open>Some\<close> path, so \<open>the\<close>
  is only applied to such a value.
\<close>

fun try_paths :: "string \<Rightarrow> validator \<Rightarrow> string list \<Rightarrow> attempt \<times> event list" where
  "try_paths b v [] = (Exhausted, [])"
| "try_paths b v (p # ps) =
     (case validate v p of
        Raises ex \<Rightarrow>
          if exn_class ex = MisMatchRuntimeError then logged (Validate b p) (try_paths b v ps)
          else (Faulted ex, [Validate b p])
      | Returns valid_path \<Rightarrow>
          if truthy valid_path then (Accepted (the valid_path), [Validate b p])
          else logged (Validate b p) (try_paths b v ps))"

text \<open>The body of the outer loop for one dictionary item.\<close>

definition validate_one :: "string \<Rightarrow> BinaryPath \<Rightarrow> attempt \<times> event list" where
  "validate_one b bp =
     (case select_exec_paths b bp of
        (Inl ex, evs) \<Rightarrow> (Faulted ex, evs)
      | (Inr paths, evs) \<Rightarrow>
          (case try_paths b (validator bp) paths of (r, evs') \<Rightarrow> (r, evs @ evs')))"

text \<open>
  The outer loop (lines 40 to 53) over the items of the dictionary. The \<^verbatim>\<open>BinaryPath\<close>
  objects are updated in place, so the items seen so far keep their new paths also when
  an exception ends the loop.
\<close>

record gate_state =
  fault :: "exn option"
  items :: "(string \<times> BinaryPath) list"
  valid_paths :: "string list"
  events :: "event list"

fun validate_binaries :: "(string \<times> BinaryPath) list \<Rightarrow> gate_state" where
  "validate_binaries [] = \<lparr>fault = None, items = [], valid_paths = [], events = []\<rparr>"
| "validate_binaries ((b, bp) # rest) =
     (case validate_one b bp of
        (Faulted ex, evs) \<Rightarrow>
          \<lparr>fault = Some ex, items = (b, bp) # rest, valid_paths = [], events = evs\<rparr>
      | (Exhausted, evs) \<Rightarrow>
          (let g = validate_binaries rest
           in g\<lparr>items := (b, bp) # items g, events := evs @ events g\<rparr>)
      | (Accepted valid_path, evs) \<Rightarrow>
          (let g = validate_binaries rest
           in g\<lparr>items := (b, bp\<lparr>binary_path := PyStr valid_path\<rparr>) # items g,
                valid_paths := valid_path # valid_paths g,
                events := evs @ events g\<rparr>))"

text \<open>What a call of \<^verbatim>\<open>run()\<close> gives: the exception raised, if any, what was called, in
  order, and the instance afterwards.\<close>

record outcome =
  raised :: "run_error option"
  trace :: "event list"
  final :: workflow

text \<open>
  The decorator \<^verbatim>\<open>sanitize\<close>: \<^verbatim>\<open>wrapper\<close> around \<^verbatim>\<open>func\<close>. \<^verbatim>\<open>binaries_copy\<close> is the
  dictionary object \<^verbatim>\<open>self._binaries\<close> refers to, so its updates are in the instance
  whether or not line 54 is reached.
\<close>

definition sanitize :: "(workflow \<Rightarrow> outcome) \<Rightarrow> workflow \<Rightarrow> outcome" where
  "sanitize func w =
     (case binaries w of (binaries_copy, evs1, w1) \<Rightarrow>
        (let g = validate_binaries binaries_copy
         in case fault g of
              Some ex \<Rightarrow>
                \<lparr>raised = Some (Propagated ex), trace = evs1 @ events g,
                 final = w1\<lparr>priv_binaries := items g\<rparr>\<rparr>
            | None \<Rightarrow>
                (case binaries (set_binaries w1 (items g)) of (bs, evs2, w2) \<Rightarrow>
                   if length bs \<noteq> length (valid_paths g)
                   then \<lparr>raised = Some (WorkflowFailedError (NAME (cls w2)) None
                                          ''Binary validation failed!''),
                         trace = evs1 @ events g @ evs2, final = w2\<rparr>
                   else (let r = func w2
                         in r\<lparr>trace := evs1 @ events g @ evs2 @ trace r\<rparr>))))"

section \<open>The action pipeline\<close>

text \<open>The loop of \<^verbatim>\<open>run\<close> (lines 230 to 251) over the actions that are left.\<close>

fun run_actions :: "string option \<Rightarrow> action list \<Rightarrow> run_error option \<times> event list" where
  "run_actions n [] = (None, [])"
| "run_actions n (a # rest) =
     (case execute a of
        None \<Rightarrow> logged (Execute (aNAME a)) (run_actions n rest)
      | Some ex \<Rightarrow>
          if exn_class ex = ActionFailedError
          then (Some (WorkflowFailedError n (Some (aNAME a)) (exn_str ex)), [Execute (aNAME a)])
          else if is_Exception ex
          then (Some (WorkflowUnknownError n (Some (aNAME a)) (exn_str ex)), [Execute (aNAME a)])
          else (Some (Propagated ex), [Execute (aNAME a)]))"

text \<open>The method \<^verbatim>\<open>run\<close> as written, before decoration.\<close>

definition run_body :: "workflow \<Rightarrow> outcome" where
  "run_body w =
     (if actions w = []
      then \<lparr>raised = Some (WorkflowFailedError (NAME (cls w)) None
                             ''Workflow does not have any actions registered''),
            trace = [], final = w\<rparr>
      else (case run_actions (NAME (cls w)) (actions w) of
              (r, evs) \<Rightarrow> \<lparr>raised = r, trace = evs, final = w\<rparr>))"

text \<open>\<^verbatim>\<open>run\<close> as callers see it: \<^verbatim>\<open>@sanitize\<close> applied to the method.\<close>

definition run :: "workflow \<Rightarrow> outcome" where
  "run w = sanitize run_body w"

section \<open>Notions the properties are stated with\<close>

text \<open>
  The gate alone: the wrapper of \<^verbatim>\<open>sanitize\<close> around a function that does nothing. It
  passes when the wrapper reaches the call of the wrapped function.
\<close>

definition gate :: "workflow \<Rightarrow> outcome" where
  "gate w = sanitize (\<lambda>w'. \<lparr>raised = None, trace = [], final = w'\<rparr>) w"

definition gate_passes :: "workflow \<Rightarrow> bool" where
  "gate_passes w = (raised (gate w) = None)"

fun is_execute :: "event \<Rightarrow> bool" where
  "is_execute (Execute _) = True"
| "is_execute _ = False"

text \<open>A read of a resolver's candidates or a call of a validator.\<close>

fun is_consult :: "event \<Rightarrow> bool" where
  "is_consult (ExecPaths _) = True"
| "is_consult (Validate _ _) = True"
| "is_consult _ = False"

text \<open>The validator accepts a candidate: it returns a truthy path.\<close>

definition accepts :: "validator \<Rightarrow> string \<Rightarrow> bool" where
  "accepts v p = (case validate v p of Returns r \<Rightarrow> truthy r | Raises _ \<Rightarrow> False)"

text \<open>The validator rejects a candidate with a runtime-mismatch fault.\<close>

definition mismatch :: "validator \<Rightarrow> string \<Rightarrow> bool" where
  "mismatch v p =
     (case validate v p of Returns _ \<Rightarrow> False | Raises ex \<Rightarrow> exn_class ex = MisMatchRuntimeError)"

text \<open>The gate goes on to the next candidate: a mismatch, or a result that is not truthy.\<close>

definition declined :: "validator \<Rightarrow> string \<Rightarrow> bool" where
  "declined v p =
     (case validate v p of Returns r \<Rightarrow> \<not> truthy r
      | Raises ex \<Rightarrow> exn_class ex = MisMatchRuntimeError)"

text \<open>No candidate path of the requirement validates.\<close>

definition no_valid_candidate :: "string \<Rightarrow> BinaryPath \<Rightarrow> bool" where
  "no_valid_candidate b bp =
     (case fst (select_exec_paths b bp) of
        Inl _ \<Rightarrow> True
      | Inr ps \<Rightarrow> list_all (\<lambda>p. \<not> accepts (validator bp) p) ps)"

text \<open>The two fixed faults of \<^verbatim>\<open>run()\<close> for a workflow.\<close>

definition binary_validation_failed :: "workflow \<Rightarrow> run_error" where
  "binary_validation_failed w =
     WorkflowFailedError (NAME (cls w)) None ''Binary validation failed!''"

definition no_actions_registered :: "workflow \<Rightarrow> run_error" where
  "no_actions_registered w =
     WorkflowFailedError (NAME (cls w)) None ''Workflow does not have any actions registered''"

text \<open>
  Nothing but a mismatch is raised for the requirement: its candidates can be iterated, and
  on each of them the validator returns or raises a \<^verbatim>\<open>MisMatchRuntimeError\<close>.
\<close>

definition only_mismatches :: "string \<Rightarrow> BinaryPath \<Rightarrow> bool" where
  "only_mismatches b bp =
     (case fst (select_exec_paths b bp) of
        Inl _ \<Rightarrow> False
      | Inr ps \<Rightarrow> list_all (\<lambda>p. accepts (validator bp) p \<or> declined (validator bp) p) ps)"



section \<open>Concrete workflows\<close>

definition ex_capability :: Capability where
  "ex_capability =
     \<lparr>language = Some ''python'', dependency_manager = Some ''pip'', application_framework = None\<rparr>"

definition ex_class :: wf_class where
  "ex_class = \<lparr>class_name = ''PythonPipWorkflow'', TESTING = False,
                NAME = Some ''PythonPipBuilder'', CAPABILITY = Some ex_capability\<rparr>"

definition ex_class2 :: wf_class where
  "ex_class2 = \<lparr>class_name = ''OtherPipWorkflow'', TESTING = False,
                NAME = Some ''OtherPipBuilder'', CAPABILITY = Some ex_capability\<rparr>"

definition ex_class_empty_name :: wf_class where
  "ex_class_empty_name = \<lparr>class_name = ''NamelessWorkflow'', TESTING = False,
                NAME = Some [], CAPABILITY = Some ex_capability\<rparr>"

definition ex_class_no_name :: wf_class where
  "ex_class_no_name = \<lparr>class_name = ''UnnamedWorkflow'', TESTING = False,
                NAME = None, CAPABILITY = Some ex_capability\<rparr>"


text \<open>
  A resolver offering two candidates and three validators: one accepts only
  \<^verbatim>\<open>/usr/bin/tool\<close> and rejects the rest with a mismatch, one rejects everything with a
  mismatch, one fails with an exception that is not a mismatch.
\<close>

definition ex_resolver :: resolver where
  "ex_resolver = \<lparr>binary = ''tool'', exec_paths = [''/opt/bin/tool'', ''/usr/bin/tool'']\<rparr>"

definition ex_validator :: validator where
  "ex_validator =
     \<lparr>validate = (\<lambda>p. if p = ''/usr/bin/tool'' then Returns (Some p)
                      else Raises (Exn MisMatchRuntimeError ''runtime mismatch''))\<rparr>"

definition ex_validator_reject :: validator where
  "ex_validator_reject =
     \<lparr>validate = (\<lambda>p. Raises (Exn MisMatchRuntimeError ''runtime mismatch''))\<rparr>"

definition ex_validator_crash :: validator where
  "ex_validator_crash = \<lparr>validate = (\<lambda>p. Raises (Exn OtherException ''permission denied''))\<rparr>"

definition ex_action1 :: action where
  "ex_action1 = \<lparr>aNAME = ''CopySource'', execute = None\<rparr>"

definition ex_action2_failing :: action where
  "ex_action2_failing =
     \<lparr>aNAME = ''ResolveDependencies'', execute = Some (Exn ActionFailedError ''pip failed'')\<rparr>"

definition ex_action3 :: action where
  "ex_action3 = \<lparr>aNAME = ''Compile'', execute = None\<rparr>"

definition ex_action_crashing :: action where
  "ex_action_crashing =
     \<lparr>aNAME = ''CopySource'', execute = Some (Exn OtherException ''disk full'')\<rparr>"

definition ex_action_interrupted :: action where
  "ex_action_interrupted =
     \<lparr>aNAME = ''CopySource'', execute = Some (Exn NonException ''KeyboardInterrupt'')\<rparr>"

text \<open>A fresh instance with the given actions registered by the subclass.\<close>

definition ex_workflow :: "validator \<Rightarrow> action list \<Rightarrow> workflow" where
  "ex_workflow v acts = (init ex_class [ex_resolver] [v])\<lparr>actions := acts\<rparr>"

text \<open>An instance whose extension points give no resolver and no validator.\<close>

definition ex_workflow_no_binaries :: "action list \<Rightarrow> workflow" where
  "ex_workflow_no_binaries acts = (init ex_class [] [])\<lparr>actions := acts\<rparr>"

text \<open>
  Requirements with an override supplied by the caller: a list of two paths, and one
  path given as a string. The validator rejects every candidate.
\<close>

definition ex_binary_path_list :: BinaryPath where
  "ex_binary_path_list =
     (new_BinaryPath ex_resolver ex_validator_reject ''tool'')
       \<lparr>binary_path := PyList [''/home/me/bin/tool'', ''/srv/bin/tool''], path_provided := True\<rparr>"

definition ex_binary_path_single :: BinaryPath where
  "ex_binary_path_single =
     (new_BinaryPath ex_resolver ex_validator_reject ''tool'')
       \<lparr>binary_path := PyStr ''/x'', path_provided := True\<rparr>"

text \<open>An instance whose requirements were set through the setter of \<^verbatim>\<open>binaries\<close>.\<close>

definition ex_workflow_override :: workflow where
  "ex_workflow_override =
     set_binaries (ex_workflow ex_validator_reject [ex_action1]) [(''tool'', ex_binary_path_list)]"

section \<open>Lemmas\<close>

subsection \<open>The loops of the gate\<close>

lemma logged_simps [simp]: "fst (logged e r) = fst r" "snd (logged e r) = e # snd r"
  by (simp_all add: logged_def)

lemma try_paths_events_consult: "e \<in> set (snd (try_paths b v ps)) \<Longrightarrow> is_consult e \<and> \<not> is_execute e"
  by (induction ps) (auto split: vresult.splits if_splits)

lemma try_paths_none_accepted:
  "list_all (\<lambda>p. \<not> accepts v p) ps \<Longrightarrow> fst (try_paths b v ps) \<noteq> Accepted q"
  by (induction ps) (auto simp: accepts_def split: vresult.splits)

lemma validate_one_alt:
  "validate_one b bp =
     (case fst (select_exec_paths b bp) of
        Inl ex \<Rightarrow> (Faulted ex, snd (select_exec_paths b bp))
      | Inr ps \<Rightarrow> (fst (try_paths b (validator bp) ps),
                   snd (select_exec_paths b bp) @ snd (try_paths b (validator bp) ps)))"
  by (simp add: validate_one_def split: prod.splits sum.splits)

lemma select_exec_paths_events:
  "e \<in> set (snd (select_exec_paths b bp)) \<Longrightarrow> is_consult e \<and> \<not> is_execute e"
  by (auto simp: select_exec_paths_def split: if_splits)

lemma validate_one_events:
  "e \<in> set (snd (validate_one b bp)) \<Longrightarrow> is_consult e \<and> \<not> is_execute e"
  using select_exec_paths_events [of e b bp] try_paths_events_consult [of e b "validator bp"]
  by (auto simp: validate_one_alt split: sum.splits)

lemma validate_one_none_accepted:
  "no_valid_candidate b bp \<Longrightarrow> fst (validate_one b bp) \<noteq> Accepted q"
  using try_paths_none_accepted [of "validator bp" _ b q]
  by (auto simp: validate_one_alt no_valid_candidate_def split: sum.splits)

lemma validate_binaries_length [simp]: "length (items (validate_binaries d)) = length d"
  by (induction d rule: validate_binaries.induct)
     (auto split: prod.splits attempt.splits simp: Let_def)

lemma validate_binaries_keys: "map fst (items (validate_binaries d)) = map fst d"
  by (induction d rule: validate_binaries.induct)
     (auto split: prod.splits attempt.splits simp: Let_def)

lemma validate_binaries_events:
  "e \<in> set (events (validate_binaries d)) \<Longrightarrow> is_consult e \<and> \<not> is_execute e"
proof (induction d rule: validate_binaries.induct)
  case 1
  then show ?case by simp
next
  case (2 b bp rest)
  obtain r evs where ro: "validate_one b bp = (r, evs)" by (cases "validate_one b bp")
  have evs: "\<And>e. e \<in> set evs \<Longrightarrow> is_consult e \<and> \<not> is_execute e"
    using validate_one_events [of _ b bp] ro by simp
  show ?case
  proof (cases r)
    case (Accepted q)
    with 2 ro evs show ?thesis by (auto simp: Let_def)
  next
    case Exhausted
    with 2 ro evs show ?thesis by (auto simp: Let_def)
  next
    case (Faulted ex)
    with 2 ro evs show ?thesis by auto
  qed
qed

lemma validate_binaries_valid_le:
  "length (valid_paths (validate_binaries d)) \<le> length d"
  by (induction d rule: validate_binaries.induct)
     (auto split: prod.splits attempt.splits simp: Let_def)

lemma validate_binaries_short:
  "(b, bp) \<in> set d \<Longrightarrow> no_valid_candidate b bp \<Longrightarrow>
   length (valid_paths (validate_binaries d)) < length d"
proof (induction d rule: validate_binaries.induct)
  case 1
  then show ?case by simp
next
  case (2 b' bp' rest)
  obtain r evs where ro: "validate_one b' bp' = (r, evs)" by (cases "validate_one b' bp'")
  show ?case
  proof (cases "(b, bp) = (b', bp')")
    case True
    then have "r \<noteq> Accepted q" for q
      using validate_one_none_accepted [OF "2.prems"(2), of q] ro by auto
    then show ?thesis
      using ro validate_binaries_valid_le [of rest]
      by (cases r) (auto simp: Let_def less_Suc_eq_le)
  next
    case False
    then have mem: "(b, bp) \<in> set rest" using "2.prems"(1) by auto
    show ?thesis
    proof (cases r)
      case (Accepted q)
      then show ?thesis using ro "2.IH"(1) [OF ro [symmetric] Accepted mem "2.prems"(2)]
        by (simp add: Let_def)
    next
      case Exhausted
      then show ?thesis using ro "2.IH"(2) [OF ro [symmetric] Exhausted mem "2.prems"(2)]
        by (simp add: Let_def)
    next
      case (Faulted ex)
      then show ?thesis using ro by simp
    qed
  qed
qed

lemma validate_binaries_items_Nil [simp]: "(items (validate_binaries d) = []) = (d = [])"
  using validate_binaries_length [of d] by (metis length_0_conv)

subsection \<open>The accessor and the wrapper\<close>

lemma binaries_keeps:
  "cls (snd (snd (binaries w))) = cls w"
  "actions (snd (snd (binaries w))) = actions w"
  "get_resolvers (snd (snd (binaries w))) = get_resolvers w"
  "get_validators (snd (snd (binaries w))) = get_validators w"
  by (simp_all add: binaries_def Let_def)

lemma binaries_again:
  assumes "length its = length (fst (binaries w))"
  shows "binaries (set_binaries (snd (snd (binaries w))) its) =
      (its, (if its = [] then [GetResolvers, GetValidators] else []),
       set_binaries (snd (snd (binaries w))) its)"
proof (cases "priv_binaries w = []")
  case True
  then show ?thesis using assms
    by (auto simp: binaries_def set_binaries_def Let_def)
next
  case False
  then show ?thesis using assms
    by (auto simp: binaries_def set_binaries_def Let_def)
qed

lemma gate_unfold:
  "gate w =
     (let d = fst (binaries w); evs1 = fst (snd (binaries w));
          g = validate_binaries d;
          w2 = set_binaries (snd (snd (binaries w))) (items g);
          evs2 = (if d = [] then [GetResolvers, GetValidators] else [])
      in case fault g of
           Some ex \<Rightarrow> \<lparr>raised = Some (Propagated ex), trace = evs1 @ events g, final = w2\<rparr>
         | None \<Rightarrow>
             if length d \<noteq> length (valid_paths g)
             then \<lparr>raised = Some (binary_validation_failed w), trace = evs1 @ events g @ evs2,
                   final = w2\<rparr>
             else \<lparr>raised = None, trace = evs1 @ events g @ evs2, final = w2\<rparr>)"
proof -
  obtain d evs1 w1 where b: "binaries w = (d, evs1, w1)" by (cases "binaries w") auto
  have again: "binaries (set_binaries w1 (items (validate_binaries d))) =
      (items (validate_binaries d), (if d = [] then [GetResolvers, GetValidators] else []),
       set_binaries w1 (items (validate_binaries d)))"
    using binaries_again [of "items (validate_binaries d)" w] b by simp
  have c: "cls (set_binaries w1 its) = cls w" for its
    using binaries_keeps(1) [of w] b by (simp add: set_binaries_def)
  have s: "w1\<lparr>priv_binaries := its\<rparr> = set_binaries w1 its" for its
    by (simp add: set_binaries_def)
  show ?thesis
  proof (cases "d = []")
    case True
    then show ?thesis using again c [of "[]"] s [of "[]"]
      by (simp add: gate_def sanitize_def b Let_def binary_validation_failed_def)
  next
    case False
    then show ?thesis using again c [of "items (validate_binaries d)"]
      by (simp add: gate_def sanitize_def b Let_def binary_validation_failed_def s
          split: option.splits)
  qed
qed

lemma sanitize_split:
  "sanitize func w =
     (if raised (gate w) = None
      then (func (final (gate w)))\<lparr>trace := trace (gate w) @ trace (func (final (gate w)))\<rparr>
      else gate w)"
proof -
  obtain d evs1 w1 where b: "binaries w = (d, evs1, w1)" by (cases "binaries w") auto
  obtain bs evs2 w2 where b2: "binaries (set_binaries w1 (items (validate_binaries d))) = (bs, evs2, w2)"
    by (cases "binaries (set_binaries w1 (items (validate_binaries d)))") auto
  show ?thesis
    by (simp add: gate_def sanitize_def b b2 Let_def split: option.splits)
qed

lemma gate_raised:
  "raised (gate w) =
     (case fault (validate_binaries (fst (binaries w))) of
        Some ex \<Rightarrow> Some (Propagated ex)
      | None \<Rightarrow>
          if length (fst (binaries w)) \<noteq> length (valid_paths (validate_binaries (fst (binaries w))))
          then Some (binary_validation_failed w) else None)"
  by (simp add: gate_unfold Let_def split: option.splits)

lemma gate_keeps:
  "cls (final (gate w)) = cls w" "actions (final (gate w)) = actions w"
  using binaries_keeps(1,2) [of w]
  by (simp_all add: gate_unfold Let_def set_binaries_def split: option.splits)

lemma binaries_events: "e \<in> set (fst (snd (binaries w))) \<Longrightarrow> \<not> is_execute e \<and> \<not> is_consult e"
  by (auto simp: binaries_def Let_def split: if_splits)

lemma gate_trace_no_execute: "e \<in> set (trace (gate w)) \<Longrightarrow> \<not> is_execute e"
  using binaries_events [of e w] validate_binaries_events [of e "fst (binaries w)"]
  by (auto simp: gate_unfold Let_def split: option.splits if_splits)

lemma run_split:
  "run w =
     (if raised (gate w) = None
      then (run_body (final (gate w)))\<lparr>trace := trace (gate w) @ trace (run_body (final (gate w)))\<rparr>
      else gate w)"
  by (simp add: run_def sanitize_split)


subsection \<open>The pipeline\<close>

lemma run_actions_events:
  "e \<in> set (snd (run_actions n acts)) \<Longrightarrow> is_execute e \<and> \<not> is_consult e"
  by (induction acts) (auto split: option.splits if_splits)

lemma run_actions_stop:
  "list_all (\<lambda>a. execute a = None) pre \<Longrightarrow> execute a = Some ex \<Longrightarrow>
   run_actions n (pre @ a # post) =
     (Some (if exn_class ex = ActionFailedError
            then WorkflowFailedError n (Some (aNAME a)) (exn_str ex)
            else if is_Exception ex
            then WorkflowUnknownError n (Some (aNAME a)) (exn_str ex)
            else Propagated ex),
      map (\<lambda>a. Execute (aNAME a)) (pre @ [a]))"
  by (induction pre) (auto simp: logged_def)

lemma run_actions_not_unattributed:
  "fst (run_actions n acts) \<noteq> Some (WorkflowFailedError n' None r)"
  by (induction acts) (auto split: option.splits)

lemma run_body_raised:
  "raised (run_body w) =
     (if actions w = [] then Some (no_actions_registered w)
      else fst (run_actions (NAME (cls w)) (actions w)))"
  by (simp add: run_body_def no_actions_registered_def split: prod.splits)

lemma run_body_trace: "trace (run_body w) = snd (run_actions (NAME (cls w)) (actions w))"
  by (simp add: run_body_def split: prod.splits)

lemma run_pass_raised:
  "gate_passes w \<Longrightarrow>
   raised (run w) =
     (if actions w = [] then Some (no_actions_registered w)
      else fst (run_actions (NAME (cls w)) (actions w)))"
  by (simp add: run_split gate_passes_def run_body_raised gate_keeps no_actions_registered_def)

lemma run_pass_trace:
  "gate_passes w \<Longrightarrow>
   trace (run w) = trace (gate w) @ snd (run_actions (NAME (cls w)) (actions w))"
  by (simp add: run_split gate_passes_def run_body_trace gate_keeps)

lemma run_fail: "\<not> gate_passes w \<Longrightarrow> run w = gate w"
  by (auto simp: run_split gate_passes_def)

lemma gate_trace_filter_execute: "filter is_execute (trace (gate w)) = []"
  using gate_trace_no_execute [of _ w] by (simp add: filter_empty_conv)

lemma run_actions_filter_execute:
  "filter is_execute (snd (run_actions n acts)) = snd (run_actions n acts)"
  using run_actions_events [of _ n acts] by (simp add: filter_id_conv)

lemma run_pass_executed:
  "gate_passes w \<Longrightarrow>
   filter is_execute (trace (run w)) = snd (run_actions (NAME (cls w)) (actions w))"
  by (simp add: run_pass_trace gate_trace_filter_execute run_actions_filter_execute)

lemma gate_outcomes:
  "raised (gate w) = None \<or> raised (gate w) = Some (binary_validation_failed w)
   \<or> (\<exists>ex. raised (gate w) = Some (Propagated ex))"
  by (simp add: gate_raised split: option.splits)

lemma failed_names_differ: "binary_validation_failed w \<noteq> no_actions_registered w"
  by (simp add: binary_validation_failed_def no_actions_registered_def)

subsection \<open>The concrete workflows\<close>

lemma ex_workflow_fields:
  "actions (ex_workflow v acts) = acts" "NAME (cls (ex_workflow v acts)) = Some ''PythonPipBuilder''"
  "priv_binaries (ex_workflow v acts) = []"
  by (simp_all add: ex_workflow_def init_def ex_class_def)

lemma ex_workflow_binaries:
  "fst (binaries (ex_workflow v acts)) = [(''tool'', new_BinaryPath ex_resolver v ''tool'')]"
  by (simp add: binaries_def pair_binaries_def ex_workflow_def init_def ex_resolver_def Let_def)

lemma ex_select_exec_paths:
  "select_exec_paths ''tool'' (new_BinaryPath ex_resolver v ''tool'')
     = (Inr [''/opt/bin/tool'', ''/usr/bin/tool''], [ExecPaths ''tool''])"
  by (simp add: select_exec_paths_def new_BinaryPath_def ex_resolver_def)

lemma ex_validate_one_accept:
  "validate_one ''tool'' (new_BinaryPath ex_resolver ex_validator ''tool'')
     = (Accepted ''/usr/bin/tool'',
        [ExecPaths ''tool'', Validate ''tool'' ''/opt/bin/tool'', Validate ''tool'' ''/usr/bin/tool''])"
  by (simp add: validate_one_def ex_select_exec_paths)
     (simp add: new_BinaryPath_def ex_validator_def logged_def)

lemma ex_validate_one_reject:
  "validate_one ''tool'' (new_BinaryPath ex_resolver ex_validator_reject ''tool'')
     = (Exhausted,
        [ExecPaths ''tool'', Validate ''tool'' ''/opt/bin/tool'', Validate ''tool'' ''/usr/bin/tool''])"
  by (simp add: validate_one_def ex_select_exec_paths)
     (simp add: new_BinaryPath_def ex_validator_reject_def logged_def)

lemma ex_validate_one_crash:
  "validate_one ''tool'' (new_BinaryPath ex_resolver ex_validator_crash ''tool'')
     = (Faulted (Exn OtherException ''permission denied''),
        [ExecPaths ''tool'', Validate ''tool'' ''/opt/bin/tool''])"
  by (simp add: validate_one_def ex_select_exec_paths)
     (simp add: new_BinaryPath_def ex_validator_crash_def)

lemma ex_gate_passes: "gate_passes (ex_workflow ex_validator acts)"
  by (simp add: gate_passes_def gate_raised ex_workflow_binaries ex_validate_one_accept)

lemma ex_gate_rejects:
  "raised (gate (ex_workflow ex_validator_reject acts))
     = Some (binary_validation_failed (ex_workflow ex_validator_reject acts))"
  by (simp add: gate_raised ex_workflow_binaries ex_validate_one_reject)

lemma ex_gate_crashes:
  "raised (gate (ex_workflow ex_validator_crash acts))
     = Some (Propagated (Exn OtherException ''permission denied''))"
  by (simp add: gate_raised ex_workflow_binaries ex_validate_one_crash)

lemma ex_no_valid_candidate:
  "no_valid_candidate ''tool'' (new_BinaryPath ex_resolver ex_validator_reject ''tool'')"
  "no_valid_candidate ''tool'' (new_BinaryPath ex_resolver ex_validator_crash ''tool'')"
  by (simp_all add: no_valid_candidate_def ex_select_exec_paths accepts_def)
     (simp_all add: new_BinaryPath_def ex_validator_reject_def ex_validator_crash_def)

subsection \<open>Faults, order of candidates and where they come from\<close>

lemma try_paths_no_fault:
  "list_all (\<lambda>p. accepts v p \<or> declined v p) ps \<Longrightarrow> fst (try_paths b v ps) \<noteq> Faulted ex"
  by (induction ps) (auto simp: accepts_def declined_def split: vresult.splits)

lemma validate_one_no_fault:
  "only_mismatches b bp \<Longrightarrow> fst (validate_one b bp) \<noteq> Faulted ex"
  using try_paths_no_fault [of "validator bp" _ b ex]
  by (auto simp: validate_one_alt only_mismatches_def split: sum.splits)

lemma validate_binaries_no_fault:
  "list_all (\<lambda>(b, bp). only_mismatches b bp) d \<Longrightarrow> fault (validate_binaries d) = None"
proof (induction d rule: validate_binaries.induct)
  case 1
  then show ?case by simp
next
  case (2 b bp rest)
  obtain r evs where ro: "validate_one b bp = (r, evs)" by (cases "validate_one b bp")
  have "r \<noteq> Faulted ex" for ex
    using validate_one_no_fault [of b bp ex] "2.prems" ro by auto
  then show ?case using 2 ro by (cases r) (auto simp: Let_def)
qed

lemma gate_blocked:
  assumes "(b, bp) \<in> set (fst (binaries w))" and "no_valid_candidate b bp"
  shows "raised (gate w) =
           (case fault (validate_binaries (fst (binaries w))) of
              None \<Rightarrow> Some (binary_validation_failed w)
            | Some ex \<Rightarrow> Some (Propagated ex))"
  using validate_binaries_short [OF assms]
  by (simp add: gate_raised split: option.splits)

lemma binaries_empty:
  assumes "fst (binaries w) = []"
  shows "priv_binaries w = []" "pair_binaries (get_resolvers w) (get_validators w) = []"
    "binaries w = ([], [GetResolvers, GetValidators], w)"
proof -
  show p: "priv_binaries w = []"
    using assms by (auto simp: binaries_def Let_def split: if_splits)
  show q: "pair_binaries (get_resolvers w) (get_validators w) = []"
    using assms p by (simp add: binaries_def Let_def)
  have "w\<lparr>priv_binaries := []\<rparr> = w" using p by (cases w) simp
  then show "binaries w = ([], [GetResolvers, GetValidators], w)"
    using p q by (simp add: binaries_def Let_def)
qed

lemma gate_empty:
  assumes "fst (binaries w) = []"
  shows "gate w = \<lparr>raised = None,
                   trace = [GetResolvers, GetValidators, GetResolvers, GetValidators],
                   final = w\<rparr>"
proof -
  have "set_binaries w [] = w"
    using binaries_empty(1) [OF assms] by (cases w) (simp add: set_binaries_def)
  then show ?thesis
    by (simp add: gate_unfold binaries_empty(3) [OF assms] Let_def)
qed

lemma run_body_not_binary_validation:
  "raised (run_body w) \<noteq> Some (binary_validation_failed w')"
  using run_actions_not_unattributed [of "NAME (cls w)" "actions w"]
  by (auto simp: run_body_raised binary_validation_failed_def no_actions_registered_def)

lemma run_body_no_consult: "e \<in> set (trace (run_body w)) \<Longrightarrow> \<not> is_consult e"
  using run_actions_events [of e "NAME (cls w)" "actions w"] by (simp add: run_body_trace)

lemma mismatch_declined: "mismatch v p \<Longrightarrow> declined v p"
  by (simp add: mismatch_def declined_def split: vresult.splits)

lemma try_paths_continue:
  "list_all (declined v) pre \<Longrightarrow>
   try_paths b v (pre @ rest) =
     (fst (try_paths b v rest), map (Validate b) pre @ snd (try_paths b v rest))"
  by (induction pre) (auto simp: declined_def logged_def split: vresult.splits)

lemma try_paths_accept:
  "list_all (declined v) pre \<Longrightarrow> validate v p = Returns (Some q) \<Longrightarrow> q \<noteq> [] \<Longrightarrow>
   try_paths b v (pre @ p # post) = (Accepted q, map (Validate b) (pre @ [p]))"
  by (simp add: try_paths_continue)

lemma try_paths_fault:
  "list_all (declined v) pre \<Longrightarrow> validate v p = Raises ex \<Longrightarrow>
   exn_class ex \<noteq> MisMatchRuntimeError \<Longrightarrow>
   try_paths b v (pre @ p # post) = (Faulted ex, map (Validate b) (pre @ [p]))"
  by (simp add: try_paths_continue)

lemma try_paths_exhausted:
  "list_all (declined v) ps \<Longrightarrow> try_paths b v ps = (Exhausted, map (Validate b) ps)"
  using try_paths_continue [of v ps b "[]"] by simp

lemma try_paths_prefix:
  "\<exists>n\<le>length ps. snd (try_paths b v ps) = map (Validate b) (take n ps)"
proof (induction ps)
  case Nil
  then show ?case by simp
next
  case (Cons p ps)
  then obtain n where n: "n \<le> length ps" "snd (try_paths b v ps) = map (Validate b) (take n ps)"
    by blast
  have "snd (try_paths b v (p # ps)) = map (Validate b) (take (Suc 0) (p # ps))
      \<or> snd (try_paths b v (p # ps)) = map (Validate b) (take (Suc n) (p # ps))"
    using n by (auto split: vresult.splits)
  moreover have "Suc 0 \<le> length (p # ps)" "Suc n \<le> length (p # ps)" using n(1) by simp_all
  ultimately show ?case by blast
qed

lemma validate_binaries_append:
  "fault (validate_binaries xs) = None \<Longrightarrow>
   validate_binaries (xs @ ys) =
     \<lparr>fault = fault (validate_binaries ys),
      items = items (validate_binaries xs) @ items (validate_binaries ys),
      valid_paths = valid_paths (validate_binaries xs) @ valid_paths (validate_binaries ys),
      events = events (validate_binaries xs) @ events (validate_binaries ys)\<rparr>"
proof (induction xs rule: validate_binaries.induct)
  case 1
  then show ?case by simp
next
  case (2 b bp rest)
  obtain r evs where ro: "validate_one b bp = (r, evs)" by (cases "validate_one b bp")
  show ?case
  proof (cases r)
    case (Accepted q)
    then show ?thesis using 2 ro by (simp add: Let_def)
  next
    case Exhausted
    then show ?thesis using 2 ro by (simp add: Let_def)
  next
    case (Faulted ex)
    then show ?thesis using "2.prems" ro by simp
  qed
qed

lemma run_final: "final (run w) = final (gate w)"
  by (simp add: run_split run_body_def split: prod.splits)

lemma gate_final_binaries:
  "priv_binaries (final (gate w)) = items (validate_binaries (fst (binaries w)))"
  by (simp add: gate_unfold Let_def set_binaries_def split: option.splits)

lemma validate_binaries_records:
  assumes "fault (validate_binaries before) = None"
      and "fst (validate_one b bp) = Accepted q"
  shows "items (validate_binaries (before @ (b, bp) # after)) ! length before
           = (b, bp\<lparr>binary_path := PyStr q\<rparr>)"
proof -
  have "items (validate_binaries ((b, bp) # after))
      = (b, bp\<lparr>binary_path := PyStr q\<rparr>) # items (validate_binaries after)"
    using assms(2) by (cases "validate_one b bp") (simp add: Let_def)
  then show ?thesis
    using validate_binaries_length [of before]
    by (simp add: validate_binaries_append [OF assms(1)] nth_append)
qed

lemma validate_binaries_faults:
  assumes "fault (validate_binaries before) = None"
      and "fst (validate_one b bp) = Faulted ex"
  shows "fault (validate_binaries (before @ (b, bp) # after)) = Some ex"
proof -
  have "fault (validate_binaries ((b, bp) # after)) = Some ex"
    using assms(2) by (cases "validate_one b bp") simp
  then show ?thesis by (simp add: validate_binaries_append [OF assms(1)])
qed

lemma run_propagates:
  assumes "fault (validate_binaries (fst (binaries w))) = Some ex"
  shows "raised (run w) = Some (Propagated ex)" "filter is_execute (trace (run w)) = []"
proof -
  have g: "raised (gate w) = Some (Propagated ex)" using assms by (simp add: gate_raised)
  then have "run w = gate w" by (simp add: run_fail gate_passes_def)
  then show "raised (run w) = Some (Propagated ex)" "filter is_execute (trace (run w)) = []"
    using g by (simp_all add: gate_trace_filter_execute)
qed

lemma try_paths_only_validate:
  "e \<in> set (snd (try_paths b v ps)) \<Longrightarrow> \<exists>p. e = Validate b p"
  by (induction ps) (auto split: vresult.splits if_splits)

lemma validate_one_exec_paths:
  "ExecPaths b' \<in> set (snd (validate_one b bp)) \<Longrightarrow> b' = b \<and> \<not> path_provided bp"
  using try_paths_only_validate [of "ExecPaths b'" b "validator bp"]
  by (auto simp: validate_one_alt select_exec_paths_def split: sum.splits if_splits)

lemma validate_binaries_exec_paths:
  "ExecPaths b \<in> set (events (validate_binaries d)) \<Longrightarrow>
   \<exists>bp. (b, bp) \<in> set d \<and> \<not> path_provided bp"
proof (induction d rule: validate_binaries.induct)
  case 1
  then show ?case by simp
next
  case (2 b' bp' rest)
  obtain r evs where ro: "validate_one b' bp' = (r, evs)" by (cases "validate_one b' bp'")
  have here: "ExecPaths b \<in> set evs \<Longrightarrow> (b, bp') \<in> set ((b', bp') # rest) \<and> \<not> path_provided bp'"
    using validate_one_exec_paths [of b b' bp'] ro by simp
  show ?case
  proof (cases r)
    case (Accepted q)
    then show ?thesis using 2 ro here by (auto simp: Let_def)
  next
    case Exhausted
    then show ?thesis using 2 ro here by (auto simp: Let_def)
  next
    case (Faulted ex)
    then show ?thesis using "2.prems" ro here by auto
  qed
qed

lemma gate_exec_paths:
  "ExecPaths b \<in> set (trace (gate w)) \<Longrightarrow>
   \<exists>bp. (b, bp) \<in> set (fst (binaries w)) \<and> \<not> path_provided bp"
  using binaries_events [of "ExecPaths b" w]
    validate_binaries_exec_paths [of b "fst (binaries w)"]
  by (auto simp: gate_unfold Let_def split: option.splits if_splits)

lemma run_exec_paths:
  "ExecPaths b \<in> set (trace (run w)) \<Longrightarrow>
   \<exists>bp. (b, bp) \<in> set (fst (binaries w)) \<and> \<not> path_provided bp"
  using gate_exec_paths [of b w] run_body_no_consult [of "ExecPaths b" "final (gate w)"]
  by (auto simp: run_split split: if_splits)

lemma validate_one_provided_list:
  assumes "path_provided bp" and "binary_path bp = PyList ps"
  shows "fst (select_exec_paths b bp) = Inr ps"
    "\<exists>n\<le>length ps. snd (validate_one b bp) = map (Validate b) (take n ps)"
    "list_all (declined (validator bp)) ps \<Longrightarrow> snd (validate_one b bp) = map (Validate b) ps"
proof -
  have s: "select_exec_paths b bp = (Inr ps, [])"
    using assms by (simp add: select_exec_paths_def)
  then show "fst (select_exec_paths b bp) = Inr ps" by simp
  show "\<exists>n\<le>length ps. snd (validate_one b bp) = map (Validate b) (take n ps)"
    using try_paths_prefix [of ps b "validator bp"] by (simp add: validate_one_alt s)
  show "list_all (declined (validator bp)) ps \<Longrightarrow> snd (validate_one b bp) = map (Validate b) ps"
    by (simp add: validate_one_alt s try_paths_exhausted)
qed

lemma validate_one_resolved:
  assumes "\<not> path_provided bp"
  shows "fst (select_exec_paths b bp) = Inr (exec_paths (resolver bp))"
    "\<exists>n\<le>length (exec_paths (resolver bp)).
       snd (validate_one b bp) = ExecPaths b # map (Validate b) (take n (exec_paths (resolver bp)))"
    "list_all (declined (validator bp)) (exec_paths (resolver bp)) \<Longrightarrow>
       snd (validate_one b bp) = ExecPaths b # map (Validate b) (exec_paths (resolver bp))"
proof -
  have s: "select_exec_paths b bp = (Inr (exec_paths (resolver bp)), [ExecPaths b])"
    using assms by (simp add: select_exec_paths_def)
  then show "fst (select_exec_paths b bp) = Inr (exec_paths (resolver bp))" by simp
  show "\<exists>n\<le>length (exec_paths (resolver bp)).
       snd (validate_one b bp) = ExecPaths b # map (Validate b) (take n (exec_paths (resolver bp)))"
    using try_paths_prefix [of "exec_paths (resolver bp)" b "validator bp"]
    by (simp add: validate_one_alt s)
  show "list_all (declined (validator bp)) (exec_paths (resolver bp)) \<Longrightarrow>
       snd (validate_one b bp) = ExecPaths b # map (Validate b) (exec_paths (resolver bp))"
    by (simp add: validate_one_alt s try_paths_exhausted)
qed

subsection \<open>Pairing resolvers with validators\<close>

lemma foldl_update_map_of:
  "map_of (foldl (\<lambda>d (r, v). AList.update (f r) (g r v) d) d0 xs)
     = map_of d0 ++ map_of (rev (map (\<lambda>(r, v). (f r, g r v)) xs))"
proof (induction xs arbitrary: d0)
  case Nil
  then show ?case by simp
next
  case (Cons x xs)
  obtain r v where x: "x = (r, v)" by (cases x)
  have "map_of (AList.update (f r) (g r v) d0) ++ map_of (rev (map (\<lambda>(r, v). (f r, g r v)) xs))
      = map_of d0 ++ (map_of [(f r, g r v)] ++ map_of (rev (map (\<lambda>(r, v). (f r, g r v)) xs)))"
    by (simp add: update_conv' map_add_def fun_eq_iff split: option.splits)
  then show ?case using Cons [of "AList.update (f r) (g r v) d0"] by (simp add: x)
qed

lemma foldl_update_distinct:
  "distinct (map fst d0) \<Longrightarrow>
   distinct (map fst (foldl (\<lambda>d (r, v). AList.update (f r) (g r v) d) d0 xs))"
  by (induction xs arbitrary: d0) (auto simp: distinct_update)

lemma map_of_rev_last:
  "i < length ps \<Longrightarrow> fst (ps ! i) = k \<Longrightarrow>
   (\<forall>j. i < j \<and> j < length ps \<longrightarrow> fst (ps ! j) \<noteq> k) \<Longrightarrow>
   map_of (rev ps) k = Some (snd (ps ! i))"
proof (induction ps rule: rev_induct)
  case Nil
  then show ?case by simp
next
  case (snoc x xs)
  show ?case
  proof (cases "i = length xs")
    case True
    then show ?thesis using snoc.prems(2) by (cases x) auto
  next
    case False
    then have i: "i < length xs" using snoc.prems(1) by simp
    have "i < length xs \<and> length xs < length (xs @ [x])" using i by simp
    then have "fst ((xs @ [x]) ! length xs) \<noteq> k" using snoc.prems(3) by blast
    then have x: "fst x \<noteq> k" by simp
    have "\<forall>j. i < j \<and> j < length xs \<longrightarrow> fst (xs ! j) \<noteq> k"
    proof (intro allI impI)
      fix j assume j: "i < j \<and> j < length xs"
      then have "i < j \<and> j < length (xs @ [x])" by simp
      then have "fst ((xs @ [x]) ! j) \<noteq> k" using snoc.prems(3) by blast
      then show "fst (xs ! j) \<noteq> k" using j by (simp add: nth_append)
    qed
    then have "map_of (rev xs) k = Some (snd (xs ! i))"
      using snoc.IH i snoc.prems(2) by (simp add: nth_append)
    then show ?thesis using x i by (cases x) (auto simp: nth_append)
  qed
qed

lemma pair_binaries_map_of:
  "map_of (pair_binaries rs vs)
     = map_of (rev (map (\<lambda>(r, v). (binary r, new_BinaryPath r v (binary r))) (zip rs vs)))"
  by (simp add: pair_binaries_def foldl_update_map_of)

lemma pair_binaries_positional:
  assumes "i < length rs" and "i < length vs"
      and "\<forall>j. i < j \<and> j < length rs \<and> j < length vs \<longrightarrow> binary (rs ! j) \<noteq> binary (rs ! i)"
  shows "map_of (pair_binaries rs vs) (binary (rs ! i))
           = Some (new_BinaryPath (rs ! i) (vs ! i) (binary (rs ! i)))"
proof -
  let ?ps = "map (\<lambda>(r, v). (binary r, new_BinaryPath r v (binary r))) (zip rs vs)"
  have l: "i < length ?ps" using assms(1,2) by simp
  have n: "?ps ! j = (binary (rs ! j), new_BinaryPath (rs ! j) (vs ! j) (binary (rs ! j)))"
    if "j < length ?ps" for j using that by simp
  have "\<forall>j. i < j \<and> j < length ?ps \<longrightarrow> fst (?ps ! j) \<noteq> binary (rs ! i)"
    using assms(3) by simp
  then have "map_of (rev ?ps) (binary (rs ! i)) = Some (snd (?ps ! i))"
    using map_of_rev_last [OF l, of "binary (rs ! i)"] n [OF l] by simp
  then show ?thesis using n [OF l] by (simp add: pair_binaries_map_of)
qed

lemma pair_binaries_keys:
  "fst ` set (pair_binaries rs vs) = (\<lambda>(r, v). binary r) ` set (zip rs vs)"
  "distinct (map fst (pair_binaries rs vs))"
proof -
  let ?ps = "map (\<lambda>(r, v). (binary r, new_BinaryPath r v (binary r))) (zip rs vs)"
  have "dom (map_of (pair_binaries rs vs)) = dom (map_of (rev ?ps))"
    by (simp add: pair_binaries_map_of)
  then have "fst ` set (pair_binaries rs vs) = fst ` set ?ps"
    by (simp add: dom_map_of_conv_image_fst)
  also have "\<dots> = (\<lambda>(r, v). binary r) ` set (zip rs vs)"
    by (force simp: image_iff)
  finally show "fst ` set (pair_binaries rs vs) = (\<lambda>(r, v). binary r) ` set (zip rs vs)" .
  show "distinct (map fst (pair_binaries rs vs))"
    by (simp add: pair_binaries_def foldl_update_distinct)
qed

lemma binaries_first:
  assumes "priv_binaries w = []"
  shows "binaries w =
      (pair_binaries (get_resolvers w) (get_validators w), [GetResolvers, GetValidators],
       set_binaries w (pair_binaries (get_resolvers w) (get_validators w)))"
  using assms by (simp add: binaries_def set_binaries_def Let_def)

lemma binaries_later:
  assumes "priv_binaries w = []"
  shows "fst (binaries w) \<noteq> [] \<Longrightarrow>
           binaries (snd (snd (binaries w))) = (fst (binaries w), [], snd (snd (binaries w)))"
    "fst (binaries w) = [] \<Longrightarrow>
           binaries (snd (snd (binaries w)))
             = ([], [GetResolvers, GetValidators], snd (snd (binaries w)))"
proof -
  let ?d = "pair_binaries (get_resolvers w) (get_validators w)"
  have b: "binaries w = (?d, [GetResolvers, GetValidators], set_binaries w ?d)"
    using assms by (rule binaries_first)
  show "fst (binaries w) \<noteq> [] \<Longrightarrow>
        binaries (snd (snd (binaries w))) = (fst (binaries w), [], snd (snd (binaries w)))"
    by (simp add: b) (simp add: binaries_def set_binaries_def)
  show "fst (binaries w) = [] \<Longrightarrow>
        binaries (snd (snd (binaries w)))
          = ([], [GetResolvers, GetValidators], snd (snd (binaries w)))"
    by (simp add: b) (simp add: binaries_def set_binaries_def Let_def)
qed

subsection \<open>When the gate passes\<close>











section \<open>Properties\<close>

lemma metaclass_new_fault:
  "class_name c \<noteq> ''BaseWorkflow'' \<Longrightarrow> \<not> TESTING c \<Longrightarrow> NAME c = None \<or> CAPABILITY c = None \<Longrightarrow>
   fst (metaclass_new reg c) \<noteq> None \<and> snd (metaclass_new reg c) = reg"
  by (auto simp: metaclass_new_def split: option.splits)

lemma metaclass_new_registers:
  "class_name c \<noteq> ''BaseWorkflow'' \<Longrightarrow> \<not> TESTING c \<Longrightarrow> NAME c = Some n \<Longrightarrow> CAPABILITY c = Some cap \<Longrightarrow>
   metaclass_new reg c = (None, registry_setitem reg cap c)"
  by (simp add: metaclass_new_def)

text \<open>
  Claim C7, as the code has it. For every workflow class other than \<^verbatim>\<open>BaseWorkflow\<close> and
  the classes marked for testing, defining the class raises a \<^verbatim>\<open>ValueError\<close> and leaves
  the registry as it was when \<^verbatim>\<open>NAME\<close> is not a string or \<^verbatim>\<open>CAPABILITY\<close> is not a
  \<^verbatim>\<open>Capability\<close>; when \<^verbatim>\<open>NAME\<close> is a string (of any length) and \<^verbatim>\<open>CAPABILITY\<close> is a
  \<^verbatim>\<open>Capability\<close> (whatever its three components hold), the class is registered under
  its capability.
\<close>

theorem C7_registration_checks_types:
  assumes "class_name c \<noteq> ''BaseWorkflow''" and "\<not> TESTING c"
  shows "(NAME c = None \<or> CAPABILITY c = None \<longrightarrow>
            fst (metaclass_new reg c) \<noteq> None \<and> snd (metaclass_new reg c) = reg)
       \<and> (\<forall>n cap. NAME c = Some n \<and> CAPABILITY c = Some cap \<longrightarrow>
            metaclass_new reg c = (None, registry_setitem reg cap c)
            \<and> registry_lookup (snd (metaclass_new reg c)) cap = Some c)"
  using assms metaclass_new_fault [of c reg] metaclass_new_registers [of c _ _ reg]
  by (auto simp: registry_lookup_def registry_setitem_def)

theorem C7_registration_checks_types_witness:
  "class_name ex_class_no_name \<noteq> ''BaseWorkflow'' \<and> \<not> TESTING ex_class_no_name
   \<and> NAME ex_class_no_name = None
   \<and> fst (metaclass_new Map.empty ex_class_no_name) \<noteq> None
   \<and> snd (metaclass_new Map.empty ex_class_no_name) = Map.empty
   \<and> class_name ex_class \<noteq> ''BaseWorkflow'' \<and> \<not> TESTING ex_class
   \<and> NAME ex_class = Some ''PythonPipBuilder'' \<and> CAPABILITY ex_class = Some ex_capability
   \<and> registry_lookup (snd (metaclass_new Map.empty ex_class)) ex_capability = Some ex_class"
  using C7_registration_checks_types [of ex_class_no_name Map.empty]
    C7_registration_checks_types [of ex_class Map.empty]
  by (simp add: ex_class_no_name_def ex_class_def registry_lookup_def registry_setitem_def)

text \<open>
  Claim C7 as stated fails: a class whose \<^verbatim>\<open>NAME\<close> is the empty string passes
  \<^verbatim>\<open>isinstance(cls.NAME, six.string_types)\<close> and is registered.
\<close>

theorem C7_empty_name_registers:
  "class_name ex_class_empty_name \<noteq> ''BaseWorkflow'' \<and> \<not> TESTING ex_class_empty_name
   \<and> NAME ex_class_empty_name = Some ''''
   \<and> fst (metaclass_new Map.empty ex_class_empty_name) = None
   \<and> registry_lookup (snd (metaclass_new Map.empty ex_class_empty_name)) ex_capability
       = Some ex_class_empty_name"
  by (simp add: ex_class_empty_name_def metaclass_new_def registry_lookup_def registry_setitem_def)

text \<open>
  Claim C8. When two workflow classes are registered one after the other under the same
  Capability Key, both registrations succeed, the first is found under the key in
  between, and afterwards a lookup of the key gives the second class only.
\<close>

theorem C8_last_registration_wins:
  assumes "class_name c1 \<noteq> ''BaseWorkflow''" and "\<not> TESTING c1"
      and "class_name c2 \<noteq> ''BaseWorkflow''" and "\<not> TESTING c2"
      and "NAME c1 = Some n1" and "NAME c2 = Some n2"
      and "CAPABILITY c1 = Some key" and "CAPABILITY c2 = Some key"
  shows "fst (metaclass_new reg c1) = None
       \<and> registry_lookup (snd (metaclass_new reg c1)) key = Some c1
       \<and> fst (metaclass_new (snd (metaclass_new reg c1)) c2) = None
       \<and> registry_lookup (snd (metaclass_new (snd (metaclass_new reg c1)) c2)) key = Some c2"
  using assms
  by (simp add: metaclass_new_registers [of _ _ key] registry_lookup_def registry_setitem_def)

theorem C8_last_registration_wins_witness:
  "class_name ex_class \<noteq> ''BaseWorkflow'' \<and> \<not> TESTING ex_class
   \<and> class_name ex_class2 \<noteq> ''BaseWorkflow'' \<and> \<not> TESTING ex_class2
   \<and> CAPABILITY ex_class = Some ex_capability \<and> CAPABILITY ex_class2 = Some ex_capability
   \<and> ex_class \<noteq> ex_class2
   \<and> registry_lookup (snd (metaclass_new (snd (metaclass_new Map.empty ex_class)) ex_class2))
        ex_capability = Some ex_class2"
  using C8_last_registration_wins [of ex_class ex_class2 "''PythonPipBuilder''" "''OtherPipBuilder''"
      ex_capability Map.empty]
  by (simp add: ex_class_def ex_class2_def)

text \<open>
  Claim C4. When the gate passes, the actions are \<open>[A1, A2, A3]\<close>, \<open>A1\<close> completes and
  \<open>A2\<close> raises an \<^verbatim>\<open>ActionFailedError\<close>, \<^verbatim>\<open>run()\<close> calls \<^verbatim>\<open>execute\<close> of \<open>A1\<close>, then of
  \<open>A2\<close>, and of no other action, and raises a \<^verbatim>\<open>WorkflowFailedError\<close> with the name of
  the workflow, the name of \<open>A2\<close> and the text of the failure.
\<close>

theorem C4_action_failure_stops_pipeline:
  assumes "gate_passes w" and "actions w = [A1, A2, A3]"
      and "execute A1 = None" and "execute A2 = Some ex"
      and "exn_class ex = ActionFailedError"
  shows "raised (run w) = Some (WorkflowFailedError (NAME (cls w)) (Some (aNAME A2)) (exn_str ex))
       \<and> filter is_execute (trace (run w)) = [Execute (aNAME A1), Execute (aNAME A2)]"
  using assms run_actions_stop [of "[A1]" A2 ex "NAME (cls w)" "[A3]"]
  by (simp add: run_pass_raised run_pass_executed)

theorem C4_action_failure_stops_pipeline_witness:
  "gate_passes (ex_workflow ex_validator [ex_action1, ex_action2_failing, ex_action3])
   \<and> execute ex_action1 = None
   \<and> execute ex_action2_failing = Some (Exn ActionFailedError ''pip failed'')
   \<and> raised (run (ex_workflow ex_validator [ex_action1, ex_action2_failing, ex_action3]))
       = Some (WorkflowFailedError (Some ''PythonPipBuilder'') (Some ''ResolveDependencies'')
                 ''pip failed'')
   \<and> filter is_execute
        (trace (run (ex_workflow ex_validator [ex_action1, ex_action2_failing, ex_action3])))
       = [Execute ''CopySource'', Execute ''ResolveDependencies'']"
proof -
  let ?w = "ex_workflow ex_validator [ex_action1, ex_action2_failing, ex_action3]"
  have g: "gate_passes ?w" by (rule ex_gate_passes)
  have a: "actions ?w = [ex_action1, ex_action2_failing, ex_action3]"
    by (simp add: ex_workflow_fields)
  have e1: "execute ex_action1 = None" by (simp add: ex_action1_def)
  have e2: "execute ex_action2_failing = Some (Exn ActionFailedError ''pip failed'')"
    by (simp add: ex_action2_failing_def)
  have c: "exn_class (Exn ActionFailedError ''pip failed'') = ActionFailedError" by simp
  show ?thesis
    using C4_action_failure_stops_pipeline [OF g a e1 e2 c] g e1 e2
    by (simp add: ex_workflow_fields ex_action1_def ex_action2_failing_def)
qed

text \<open>
  Claim C5, as the code has it. When the gate passes, the actions before \<open>a\<close> complete
  and \<open>a\<close> raises an exception that is not an \<^verbatim>\<open>ActionFailedError\<close>, \<^verbatim>\<open>run()\<close> calls
  \<^verbatim>\<open>execute\<close> of the actions up to \<open>a\<close>, in order, and of no later action. If the
  exception is derived from \<^verbatim>\<open>Exception\<close>, \<^verbatim>\<open>run()\<close> raises a \<^verbatim>\<open>WorkflowUnknownError\<close>
  with the name of the workflow, the name of \<open>a\<close> and the text of the cause; otherwise
  the exception itself leaves \<^verbatim>\<open>run()\<close>.
\<close>

theorem C5_unknown_fault_stops_pipeline:
  assumes "gate_passes w" and "actions w = pre @ a # post"
      and "list_all (\<lambda>a. execute a = None) pre" and "execute a = Some ex"
      and "exn_class ex \<noteq> ActionFailedError"
  shows "(is_Exception ex \<longrightarrow>
            raised (run w)
              = Some (WorkflowUnknownError (NAME (cls w)) (Some (aNAME a)) (exn_str ex)))
       \<and> (\<not> is_Exception ex \<longrightarrow> raised (run w) = Some (Propagated ex))
       \<and> filter is_execute (trace (run w)) = map (\<lambda>a. Execute (aNAME a)) (pre @ [a])"
  using assms run_actions_stop [of pre a ex "NAME (cls w)" post]
  by (simp add: run_pass_raised run_pass_executed)

theorem C5_unknown_fault_stops_pipeline_witness:
  "gate_passes (ex_workflow ex_validator [ex_action_crashing, ex_action3])
   \<and> execute ex_action_crashing = Some (Exn OtherException ''disk full'')
   \<and> is_Exception (Exn OtherException ''disk full'')
   \<and> raised (run (ex_workflow ex_validator [ex_action_crashing, ex_action3]))
       = Some (WorkflowUnknownError (Some ''PythonPipBuilder'') (Some ''CopySource'')
                 ''disk full'')
   \<and> filter is_execute (trace (run (ex_workflow ex_validator [ex_action_crashing, ex_action3])))
       = [Execute ''CopySource'']"
proof -
  let ?w = "ex_workflow ex_validator [ex_action_crashing, ex_action3]"
  have g: "gate_passes ?w" by (rule ex_gate_passes)
  have a: "actions ?w = [] @ ex_action_crashing # [ex_action3]"
    by (simp add: ex_workflow_fields)
  have p: "list_all (\<lambda>a. execute a = None) []" by simp
  have e: "execute ex_action_crashing = Some (Exn OtherException ''disk full'')"
    by (simp add: ex_action_crashing_def)
  have c: "exn_class (Exn OtherException ''disk full'') \<noteq> ActionFailedError" by simp
  show ?thesis
    using C5_unknown_fault_stops_pipeline [OF g a p e c] g e
    by (simp add: ex_workflow_fields ex_action_crashing_def is_Exception_def)
qed

text \<open>
  Claim C5 as stated fails: an exception that is not derived from \<^verbatim>\<open>Exception\<close>
  (\<^verbatim>\<open>KeyboardInterrupt\<close>, \<^verbatim>\<open>SystemExit\<close>) is not an \<^verbatim>\<open>ActionFailedError\<close>, and
  \<^verbatim>\<open>except Exception\<close> does not catch it: it leaves \<^verbatim>\<open>run()\<close> as it is, and no
  \<^verbatim>\<open>WorkflowUnknownError\<close> is raised.
\<close>

theorem C5_interrupt_is_not_wrapped:
  "gate_passes (ex_workflow ex_validator [ex_action_interrupted, ex_action3])
   \<and> execute ex_action_interrupted = Some (Exn NonException ''KeyboardInterrupt'')
   \<and> exn_class (Exn NonException ''KeyboardInterrupt'') \<noteq> ActionFailedError
   \<and> raised (run (ex_workflow ex_validator [ex_action_interrupted, ex_action3]))
       = Some (Propagated (Exn NonException ''KeyboardInterrupt''))
   \<and> raised (run (ex_workflow ex_validator [ex_action_interrupted, ex_action3]))
       \<noteq> Some (WorkflowUnknownError (Some ''PythonPipBuilder'') (Some ''CopySource'')
                 ''KeyboardInterrupt'')"
  by (simp add: ex_gate_passes run_pass_raised ex_workflow_fields ex_action_interrupted_def
      is_Exception_def)




text \<open>
  Claim C1, as the code has it. When some Binary Requirement of the workflow has no
  candidate path that validates, \<^verbatim>\<open>run()\<close> calls \<^verbatim>\<open>execute\<close> of no action. It raises the
  \<^verbatim>\<open>WorkflowFailedError\<close> with the name of the workflow, no action name and the reason
  \<^verbatim>\<open>Binary validation failed!\<close> when no exception other than a mismatch is raised while
  the gate runs, which is so whenever every validator only returns or raises a
  mismatch on the candidates; otherwise the exception raised in the gate leaves \<^verbatim>\<open>run()\<close>.
\<close>

theorem C1_unsatisfied_requirement_blocks_actions:
  assumes "(b, bp) \<in> set (fst (binaries w))" and "no_valid_candidate b bp"
  shows "filter is_execute (trace (run w)) = []
       \<and> (case fault (validate_binaries (fst (binaries w))) of
            None \<Rightarrow> raised (run w) = Some (binary_validation_failed w)
          | Some ex \<Rightarrow> raised (run w) = Some (Propagated ex))
       \<and> (list_all (\<lambda>(b, bp). only_mismatches b bp) (fst (binaries w)) \<longrightarrow>
            raised (run w)
              = Some (WorkflowFailedError (NAME (cls w)) None ''Binary validation failed!''))"
proof -
  have blocked: "raised (gate w) =
      (case fault (validate_binaries (fst (binaries w))) of
         None \<Rightarrow> Some (binary_validation_failed w) | Some ex \<Rightarrow> Some (Propagated ex))"
    using assms by (rule gate_blocked)
  then have "\<not> gate_passes w" by (simp add: gate_passes_def split: option.splits)
  then have r: "run w = gate w" by (rule run_fail)
  have t: "filter is_execute (trace (run w)) = []"
    by (simp add: r gate_trace_filter_execute)
  have c: "case fault (validate_binaries (fst (binaries w))) of
            None \<Rightarrow> raised (run w) = Some (binary_validation_failed w)
          | Some ex \<Rightarrow> raised (run w) = Some (Propagated ex)"
    using blocked r by (simp split: option.splits)
  have m: "list_all (\<lambda>(b, bp). only_mismatches b bp) (fst (binaries w)) \<Longrightarrow>
      raised (run w) = Some (WorkflowFailedError (NAME (cls w)) None ''Binary validation failed!'')"
    using blocked r validate_binaries_no_fault [of "fst (binaries w)"]
    by (simp add: binary_validation_failed_def)
  show ?thesis using t c m by blast
qed

theorem C1_unsatisfied_requirement_blocks_actions_witness:
  "(''tool'', new_BinaryPath ex_resolver ex_validator_reject ''tool'')
     \<in> set (fst (binaries (ex_workflow ex_validator_reject [ex_action1])))
   \<and> no_valid_candidate ''tool'' (new_BinaryPath ex_resolver ex_validator_reject ''tool'')
   \<and> list_all (\<lambda>(b, bp). only_mismatches b bp)
       (fst (binaries (ex_workflow ex_validator_reject [ex_action1])))
   \<and> raised (run (ex_workflow ex_validator_reject [ex_action1]))
       = Some (WorkflowFailedError (Some ''PythonPipBuilder'') None ''Binary validation failed!'')
   \<and> filter is_execute (trace (run (ex_workflow ex_validator_reject [ex_action1]))) = []"
proof -
  let ?w = "ex_workflow ex_validator_reject [ex_action1]"
  let ?bp = "new_BinaryPath ex_resolver ex_validator_reject ''tool''"
  have m: "(''tool'', ?bp) \<in> set (fst (binaries ?w))" by (simp add: ex_workflow_binaries)
  have n: "no_valid_candidate ''tool'' ?bp" by (rule ex_no_valid_candidate(1))
  have o: "list_all (\<lambda>(b, bp). only_mismatches b bp) (fst (binaries ?w))"
    by (simp add: ex_workflow_binaries only_mismatches_def ex_select_exec_paths declined_def)
       (simp add: new_BinaryPath_def ex_validator_reject_def)
  show ?thesis
    using C1_unsatisfied_requirement_blocks_actions [OF m n] m n o
    by (simp add: ex_workflow_fields)
qed

text \<open>
  Claim C1 as stated fails: the only requirement of this workflow has no candidate that
  validates, because its validator fails with an exception that is not a mismatch, and
  \<^verbatim>\<open>run()\<close> raises that exception, not the binary-validation-failed fault.
\<close>

theorem C1_validator_fault_replaces_gate_fault:
  "(''tool'', new_BinaryPath ex_resolver ex_validator_crash ''tool'')
     \<in> set (fst (binaries (ex_workflow ex_validator_crash [ex_action1])))
   \<and> no_valid_candidate ''tool'' (new_BinaryPath ex_resolver ex_validator_crash ''tool'')
   \<and> raised (run (ex_workflow ex_validator_crash [ex_action1]))
       = Some (Propagated (Exn OtherException ''permission denied''))
   \<and> raised (run (ex_workflow ex_validator_crash [ex_action1]))
       \<noteq> Some (WorkflowFailedError (Some ''PythonPipBuilder'') None ''Binary validation failed!'')"
  by (simp add: ex_workflow_binaries ex_no_valid_candidate(2) run_fail gate_passes_def
      ex_gate_crashes)

text \<open>
  Claim C10. When the Binary Requirement mapping of the workflow is empty, the gate
  passes: \<^verbatim>\<open>run()\<close> does what the undecorated method does on the same instance, after
  calling only the two extension points (twice, since the empty mapping is computed
  again for the count), it reads the candidates of no resolver and calls no validator,
  and it does not raise the binary-validation-failed fault.
\<close>

theorem C10_empty_mapping_passes_gate:
  assumes "fst (binaries w) = []"
  shows "gate_passes w
       \<and> run w = (run_body w)\<lparr>trace := [GetResolvers, GetValidators, GetResolvers, GetValidators]
                                          @ trace (run_body w)\<rparr>
       \<and> filter is_consult (trace (run w)) = []
       \<and> raised (run w) \<noteq> Some (binary_validation_failed w)"
proof -
  have g: "gate w = \<lparr>raised = None,
      trace = [GetResolvers, GetValidators, GetResolvers, GetValidators], final = w\<rparr>"
    using assms by (rule gate_empty)
  have p: "gate_passes w" by (simp add: gate_passes_def g)
  have r: "run w = (run_body w)\<lparr>trace := [GetResolvers, GetValidators, GetResolvers, GetValidators]
      @ trace (run_body w)\<rparr>"
    by (simp add: run_split g)
  have c: "filter is_consult (trace (run w)) = []"
    using run_body_no_consult [of _ w] by (auto simp: r filter_empty_conv)
  have b: "raised (run w) \<noteq> Some (binary_validation_failed w)"
    using run_body_not_binary_validation [of w w] by (simp add: r)
  show ?thesis using p r c b by blast
qed

theorem C10_empty_mapping_passes_gate_witness:
  "get_resolvers (ex_workflow_no_binaries [ex_action1]) = []
   \<and> fst (binaries (ex_workflow_no_binaries [ex_action1])) = []
   \<and> gate_passes (ex_workflow_no_binaries [ex_action1])
   \<and> raised (run (ex_workflow_no_binaries [ex_action1])) = None
   \<and> trace (run (ex_workflow_no_binaries [ex_action1]))
       = [GetResolvers, GetValidators, GetResolvers, GetValidators, Execute ''CopySource'']"
proof -
  let ?w = "ex_workflow_no_binaries [ex_action1]"
  have e: "fst (binaries ?w) = []"
    by (simp add: binaries_def pair_binaries_def ex_workflow_no_binaries_def init_def Let_def)
  show ?thesis
    using C10_empty_mapping_passes_gate [OF e] e
    by (simp add: run_body_def ex_workflow_no_binaries_def init_def ex_action1_def logged_def)
qed

text \<open>
  Claim C2. Take a Binary Requirement \<open>(b, bp)\<close> of the workflow that the gate reaches (no
  exception was raised for the requirements before it), and a candidate \<open>p\<close> of it such
  that the validator declined every candidate before \<open>p\<close>. If the validator accepts \<open>p\<close>
  with the path \<open>q\<close>, the candidates after \<open>p\<close> are not tried and \<open>q\<close> is the path recorded
  for the requirement in the instance after \<^verbatim>\<open>run()\<close>. If the validator rejects \<open>p\<close> with a
  mismatch, the gate goes on with the candidates after \<open>p\<close>. If the validator raises
  any other exception on \<open>p\<close>, no further candidate is tried, the exception leaves
  \<^verbatim>\<open>run()\<close> and no action is executed.
\<close>

theorem C2_candidates_tried_in_order:
  assumes "fst (binaries w) = before @ (b, bp) # after"
      and "fault (validate_binaries before) = None"
      and "fst (select_exec_paths b bp) = Inr (pre @ p # post)"
      and "list_all (declined (validator bp)) pre"
  shows "(validate (validator bp) p = Returns (Some q) \<and> q \<noteq> [] \<longrightarrow>
            validate_one b bp
              = (Accepted q, snd (select_exec_paths b bp) @ map (Validate b) (pre @ [p]))
            \<and> priv_binaries (final (run w)) ! length before = (b, bp\<lparr>binary_path := PyStr q\<rparr>))
       \<and> (mismatch (validator bp) p \<longrightarrow>
            validate_one b bp
              = (fst (try_paths b (validator bp) post),
                 snd (select_exec_paths b bp) @ map (Validate b) (pre @ [p])
                 @ snd (try_paths b (validator bp) post)))
       \<and> (validate (validator bp) p = Raises ex \<and> exn_class ex \<noteq> MisMatchRuntimeError \<longrightarrow>
            validate_one b bp
              = (Faulted ex, snd (select_exec_paths b bp) @ map (Validate b) (pre @ [p]))
            \<and> raised (run w) = Some (Propagated ex)
            \<and> filter is_execute (trace (run w)) = [])"
proof -
  let ?v = "validator bp"
  have one: "validate_one b bp =
      (fst (try_paths b ?v (pre @ p # post)),
       snd (select_exec_paths b bp) @ snd (try_paths b ?v (pre @ p # post)))"
    using assms(3) by (simp add: validate_one_alt)
  have acc: "validate_one b bp
          = (Accepted q, snd (select_exec_paths b bp) @ map (Validate b) (pre @ [p]))
        \<and> priv_binaries (final (run w)) ! length before = (b, bp\<lparr>binary_path := PyStr q\<rparr>)"
    if "validate ?v p = Returns (Some q)" "q \<noteq> []"
  proof -
    have v: "validate_one b bp
        = (Accepted q, snd (select_exec_paths b bp) @ map (Validate b) (pre @ [p]))"
      using try_paths_accept [OF assms(4) that, of b post] one by simp
    then have "fst (validate_one b bp) = Accepted q" by simp
    then show ?thesis
      using v validate_binaries_records [OF assms(2), of b bp q after]
      by (simp add: run_final gate_final_binaries assms(1))
  qed
  have mis: "validate_one b bp
        = (fst (try_paths b ?v post),
           snd (select_exec_paths b bp) @ map (Validate b) (pre @ [p])
           @ snd (try_paths b ?v post))"
    if "mismatch ?v p"
  proof -
    have "list_all (declined ?v) (pre @ [p])"
      using assms(4) mismatch_declined [OF that] by simp
    then show ?thesis
      using try_paths_continue [of ?v "pre @ [p]" b post] one by simp
  qed
  have flt: "validate_one b bp
          = (Faulted ex, snd (select_exec_paths b bp) @ map (Validate b) (pre @ [p]))
        \<and> raised (run w) = Some (Propagated ex)
        \<and> filter is_execute (trace (run w)) = []"
    if "validate ?v p = Raises ex" "exn_class ex \<noteq> MisMatchRuntimeError"
  proof -
    have v: "validate_one b bp
        = (Faulted ex, snd (select_exec_paths b bp) @ map (Validate b) (pre @ [p]))"
      using try_paths_fault [OF assms(4) that, of b post] one by simp
    then have "fst (validate_one b bp) = Faulted ex" by simp
    then have "fault (validate_binaries (fst (binaries w))) = Some ex"
      using validate_binaries_faults [OF assms(2), of b bp ex after] by (simp add: assms(1))
    then show ?thesis using v run_propagates [of w ex] by simp
  qed
  show ?thesis using acc mis flt by blast
qed

theorem C2_candidates_tried_in_order_witness:
  "fst (binaries (ex_workflow ex_validator [ex_action1]))
     = [] @ (''tool'', new_BinaryPath ex_resolver ex_validator ''tool'') # []
   \<and> list_all (declined ex_validator) [''/opt/bin/tool'']
   \<and> mismatch ex_validator ''/opt/bin/tool''
   \<and> validate ex_validator ''/usr/bin/tool'' = Returns (Some ''/usr/bin/tool'')
   \<and> validate_one ''tool'' (new_BinaryPath ex_resolver ex_validator ''tool'')
       = (Accepted ''/usr/bin/tool'',
          [ExecPaths ''tool'', Validate ''tool'' ''/opt/bin/tool'',
           Validate ''tool'' ''/usr/bin/tool''])
   \<and> priv_binaries (final (run (ex_workflow ex_validator [ex_action1]))) ! 0
       = (''tool'', (new_BinaryPath ex_resolver ex_validator ''tool'')
                      \<lparr>binary_path := PyStr ''/usr/bin/tool''\<rparr>)
   \<and> validate ex_validator_crash ''/opt/bin/tool''
       = Raises (Exn OtherException ''permission denied'')
   \<and> raised (run (ex_workflow ex_validator_crash [ex_action1]))
       = Some (Propagated (Exn OtherException ''permission denied''))
   \<and> filter is_execute (trace (run (ex_workflow ex_validator_crash [ex_action1]))) = []"
proof -
  let ?w = "ex_workflow ex_validator [ex_action1]"
  let ?bp = "new_BinaryPath ex_resolver ex_validator ''tool''"
  let ?wc = "ex_workflow ex_validator_crash [ex_action1]"
  let ?bc = "new_BinaryPath ex_resolver ex_validator_crash ''tool''"
  have b: "fst (binaries ?w) = [] @ (''tool'', ?bp) # []" by (simp add: ex_workflow_binaries)
  have bc: "fst (binaries ?wc) = [] @ (''tool'', ?bc) # []" by (simp add: ex_workflow_binaries)
  have n: "fault (validate_binaries []) = None" by simp
  have s1: "fst (select_exec_paths ''tool'' ?bp) = Inr ([''/opt/bin/tool''] @ ''/usr/bin/tool'' # [])"
    by (simp add: ex_select_exec_paths)
  have s2: "fst (select_exec_paths ''tool'' ?bp) = Inr ([] @ ''/opt/bin/tool'' # [''/usr/bin/tool''])"
    by (simp add: ex_select_exec_paths)
  have s3: "fst (select_exec_paths ''tool'' ?bc) = Inr ([] @ ''/opt/bin/tool'' # [''/usr/bin/tool''])"
    by (simp add: ex_select_exec_paths)
  have v: "validator ?bp = ex_validator" "validator ?bc = ex_validator_crash"
    by (simp_all add: new_BinaryPath_def)
  have d1: "list_all (declined (validator ?bp)) [''/opt/bin/tool'']"
    unfolding v by (simp add: declined_def ex_validator_def)
  have d0: "list_all (declined (validator ?bp)) []" "list_all (declined (validator ?bc)) []"
    by simp_all
  have m: "mismatch ex_validator ''/opt/bin/tool''"
    by (simp add: mismatch_def ex_validator_def)
  have a: "validate ex_validator ''/usr/bin/tool'' = Returns (Some ''/usr/bin/tool'')"
    by (simp add: ex_validator_def)
  have c: "validate ex_validator_crash ''/opt/bin/tool''
      = Raises (Exn OtherException ''permission denied'')"
    by (simp add: ex_validator_crash_def)
  note t1 = C2_candidates_tried_in_order [OF b n s1 d1, of "''/usr/bin/tool''"]
  note t2 = C2_candidates_tried_in_order [OF b n s2 d0(1)]
  note t3 = C2_candidates_tried_in_order [OF bc n s3 d0(2),
      of _ "Exn OtherException ''permission denied''"]
  show ?thesis
    using t1 t2 t3 b m a c d1
    by (simp add: v ex_select_exec_paths)
qed

text \<open>
  Claim C3, as the code has it. For a Binary Requirement with \<^verbatim>\<open>path_provided\<close> set whose
  \<^verbatim>\<open>binary_path\<close> holds a list of paths, the candidates of the gate are exactly that
  list: the validator is called on a prefix of it, in order (on all of it when it
  declines each one), and the resolver's \<^verbatim>\<open>exec_paths\<close> is not read. For a requirement
  with \<^verbatim>\<open>path_provided\<close> not set, the candidates are exactly the resolver's
  \<^verbatim>\<open>exec_paths\<close>, read once. And \<^verbatim>\<open>run()\<close> never reads the \<^verbatim>\<open>exec_paths\<close> for a key whose
  requirement has \<^verbatim>\<open>path_provided\<close> set, whatever \<^verbatim>\<open>binary_path\<close> holds.
\<close>

theorem C3_candidates_come_from_override_or_resolver:
  "(path_provided bp \<and> binary_path bp = PyList ps \<longrightarrow>
      fst (select_exec_paths b bp) = Inr ps
      \<and> (\<exists>n\<le>length ps. snd (validate_one b bp) = map (Validate b) (take n ps))
      \<and> (list_all (declined (validator bp)) ps \<longrightarrow>
           snd (validate_one b bp) = map (Validate b) ps))
   \<and> (\<not> path_provided bp \<longrightarrow>
      fst (select_exec_paths b bp) = Inr (exec_paths (resolver bp))
      \<and> (\<exists>n\<le>length (exec_paths (resolver bp)).
            snd (validate_one b bp)
              = ExecPaths b # map (Validate b) (take n (exec_paths (resolver bp))))
      \<and> (list_all (declined (validator bp)) (exec_paths (resolver bp)) \<longrightarrow>
           snd (validate_one b bp)
             = ExecPaths b # map (Validate b) (exec_paths (resolver bp))))
   \<and> ((\<forall>bp'. (b, bp') \<in> set (fst (binaries w)) \<longrightarrow> path_provided bp') \<longrightarrow>
        ExecPaths b \<notin> set (trace (run w)))"
proof -
  have p: "path_provided bp \<and> binary_path bp = PyList ps \<longrightarrow>
      fst (select_exec_paths b bp) = Inr ps
      \<and> (\<exists>n\<le>length ps. snd (validate_one b bp) = map (Validate b) (take n ps))
      \<and> (list_all (declined (validator bp)) ps \<longrightarrow>
           snd (validate_one b bp) = map (Validate b) ps)"
    using validate_one_provided_list [of bp ps b] by blast
  have r: "\<not> path_provided bp \<longrightarrow>
      fst (select_exec_paths b bp) = Inr (exec_paths (resolver bp))
      \<and> (\<exists>n\<le>length (exec_paths (resolver bp)).
            snd (validate_one b bp)
              = ExecPaths b # map (Validate b) (take n (exec_paths (resolver bp))))
      \<and> (list_all (declined (validator bp)) (exec_paths (resolver bp)) \<longrightarrow>
           snd (validate_one b bp)
             = ExecPaths b # map (Validate b) (exec_paths (resolver bp)))"
    using validate_one_resolved [of bp b] by blast
  have g: "(\<forall>bp'. (b, bp') \<in> set (fst (binaries w)) \<longrightarrow> path_provided bp') \<longrightarrow>
        ExecPaths b \<notin> set (trace (run w))"
    using run_exec_paths [of b w] by blast
  show ?thesis using p r g by blast
qed

theorem C3_candidates_come_from_override_or_resolver_witness:
  "path_provided ex_binary_path_list
   \<and> binary_path ex_binary_path_list = PyList [''/home/me/bin/tool'', ''/srv/bin/tool'']
   \<and> list_all (declined (validator ex_binary_path_list)) [''/home/me/bin/tool'', ''/srv/bin/tool'']
   \<and> snd (validate_one ''tool'' ex_binary_path_list)
       = [Validate ''tool'' ''/home/me/bin/tool'', Validate ''tool'' ''/srv/bin/tool'']
   \<and> fst (binaries ex_workflow_override) = [(''tool'', ex_binary_path_list)]
   \<and> ExecPaths ''tool'' \<notin> set (trace (run ex_workflow_override))
   \<and> \<not> path_provided (new_BinaryPath ex_resolver ex_validator_reject ''tool'')
   \<and> snd (validate_one ''tool'' (new_BinaryPath ex_resolver ex_validator_reject ''tool''))
       = [ExecPaths ''tool'', Validate ''tool'' ''/opt/bin/tool'', Validate ''tool'' ''/usr/bin/tool'']"
proof -
  let ?bp = "new_BinaryPath ex_resolver ex_validator_reject ''tool''"
  have pp: "path_provided ex_binary_path_list"
    and bl: "binary_path ex_binary_path_list = PyList [''/home/me/bin/tool'', ''/srv/bin/tool'']"
    and vl: "validator ex_binary_path_list = ex_validator_reject"
    by (simp_all add: ex_binary_path_list_def new_BinaryPath_def)
  have dl: "list_all (declined (validator ex_binary_path_list))
      [''/home/me/bin/tool'', ''/srv/bin/tool'']"
    unfolding vl by (simp add: declined_def ex_validator_reject_def)
  have np: "\<not> path_provided ?bp" and vr: "validator ?bp = ex_validator_reject"
    and er: "exec_paths (resolver ?bp) = [''/opt/bin/tool'', ''/usr/bin/tool'']"
    by (simp_all add: new_BinaryPath_def ex_resolver_def)
  have dr: "list_all (declined (validator ?bp)) (exec_paths (resolver ?bp))"
    unfolding vr er by (simp add: declined_def ex_validator_reject_def)
  have bs: "fst (binaries ex_workflow_override) = [(''tool'', ex_binary_path_list)]"
    by (simp add: ex_workflow_override_def binaries_def set_binaries_def)
  have al: "\<forall>bp'. (''tool'', bp') \<in> set (fst (binaries ex_workflow_override))
      \<longrightarrow> path_provided bp'"
    using pp by (simp add: bs)
  note t1 = C3_candidates_come_from_override_or_resolver
    [of ex_binary_path_list "[''/home/me/bin/tool'', ''/srv/bin/tool'']" "''tool''"
        ex_workflow_override]
  note t2 = C3_candidates_come_from_override_or_resolver
    [of ?bp "[]" "''tool''" ex_workflow_override]
  show ?thesis
    using t1 t2 pp bl dl np dr bs al er by simp
qed

text \<open>
  Claim C3 as stated fails when the override is one path given as a string: the gate
  iterates over the string, so the candidates handed to the validator are its
  characters, not the override path.
\<close>

theorem C3_single_path_override_is_split:
  "path_provided ex_binary_path_single
   \<and> binary_path ex_binary_path_single = PyStr ''/x''
   \<and> fst (select_exec_paths ''tool'' ex_binary_path_single) = Inr [''/'', ''x'']
   \<and> fst (select_exec_paths ''tool'' ex_binary_path_single) \<noteq> Inr [''/x'']
   \<and> snd (validate_one ''tool'' ex_binary_path_single)
       = [Validate ''tool'' ''/'', Validate ''tool'' ''x'']"
  by (simp add: ex_binary_path_single_def new_BinaryPath_def select_exec_paths_def
      validate_one_def ex_validator_reject_def logged_def)

text \<open>
  Claim C9, as the code has it. On an instance whose \<^verbatim>\<open>_binaries\<close> is still the empty
  dictionary of \<^verbatim>\<open>__init__\<close>, the first read of \<^verbatim>\<open>binaries\<close> calls \<^verbatim>\<open>get_resolvers\<close> and
  \<^verbatim>\<open>get_validators\<close> once each and stores the dictionary built from their results paired
  by position: its keys are the names of the paired resolvers, and the name of the
  resolver at a position maps to the \<^verbatim>\<open>BinaryPath\<close> of the resolver and validator at that
  position unless a later paired resolver has the same name. When that dictionary is
  not empty, the next read returns it and calls nothing; when it is empty, the next read
  calls the two extension points again.
\<close>

theorem C9_binaries_computed_on_first_access:
  assumes "priv_binaries w = []"
  shows "binaries w =
           (pair_binaries (get_resolvers w) (get_validators w), [GetResolvers, GetValidators],
            set_binaries w (pair_binaries (get_resolvers w) (get_validators w)))
       \<and> fst ` set (fst (binaries w))
            = (\<lambda>(r, v). binary r) ` set (zip (get_resolvers w) (get_validators w))
       \<and> distinct (map fst (fst (binaries w)))
       \<and> (\<forall>i. i < length (get_resolvers w) \<and> i < length (get_validators w)
              \<and> (\<forall>j. i < j \<and> j < length (get_resolvers w) \<and> j < length (get_validators w)
                     \<longrightarrow> binary (get_resolvers w ! j) \<noteq> binary (get_resolvers w ! i))
            \<longrightarrow> map_of (fst (binaries w)) (binary (get_resolvers w ! i))
                  = Some (new_BinaryPath (get_resolvers w ! i) (get_validators w ! i)
                            (binary (get_resolvers w ! i))))
       \<and> (fst (binaries w) \<noteq> [] \<longrightarrow>
            binaries (snd (snd (binaries w))) = (fst (binaries w), [], snd (snd (binaries w))))
       \<and> (fst (binaries w) = [] \<longrightarrow>
            binaries (snd (snd (binaries w)))
              = ([], [GetResolvers, GetValidators], snd (snd (binaries w))))"
proof -
  let ?rs = "get_resolvers w" and ?vs = "get_validators w"
  have b: "binaries w = (pair_binaries ?rs ?vs, [GetResolvers, GetValidators],
      set_binaries w (pair_binaries ?rs ?vs))"
    using assms by (rule binaries_first)
  have k: "fst ` set (fst (binaries w)) = (\<lambda>(r, v). binary r) ` set (zip ?rs ?vs)"
    and d: "distinct (map fst (fst (binaries w)))"
    by (simp_all add: b pair_binaries_keys)
  have p: "\<forall>i. i < length ?rs \<and> i < length ?vs
        \<and> (\<forall>j. i < j \<and> j < length ?rs \<and> j < length ?vs \<longrightarrow> binary (?rs ! j) \<noteq> binary (?rs ! i))
      \<longrightarrow> map_of (fst (binaries w)) (binary (?rs ! i))
            = Some (new_BinaryPath (?rs ! i) (?vs ! i) (binary (?rs ! i)))"
    using pair_binaries_positional [of _ ?rs ?vs] by (simp add: b)
  have c: "fst (binaries w) \<noteq> [] \<longrightarrow>
      binaries (snd (snd (binaries w))) = (fst (binaries w), [], snd (snd (binaries w)))"
    using binaries_later(1) [OF assms] by blast
  have e: "fst (binaries w) = [] \<longrightarrow>
      binaries (snd (snd (binaries w)))
        = ([], [GetResolvers, GetValidators], snd (snd (binaries w)))"
    using binaries_later(2) [OF assms] by blast
  show ?thesis using b k d p c e by blast
qed

theorem C9_binaries_computed_on_first_access_witness:
  "priv_binaries (ex_workflow ex_validator []) = []
   \<and> fst (binaries (ex_workflow ex_validator []))
       = [(''tool'', new_BinaryPath ex_resolver ex_validator ''tool'')]
   \<and> fst (snd (binaries (ex_workflow ex_validator []))) = [GetResolvers, GetValidators]
   \<and> map_of (fst (binaries (ex_workflow ex_validator []))) ''tool''
       = Some (new_BinaryPath ex_resolver ex_validator ''tool'')
   \<and> fst (binaries (snd (snd (binaries (ex_workflow ex_validator [])))))
       = [(''tool'', new_BinaryPath ex_resolver ex_validator ''tool'')]
   \<and> fst (snd (binaries (snd (snd (binaries (ex_workflow ex_validator [])))))) = []"
proof -
  let ?w = "ex_workflow ex_validator []"
  have p: "priv_binaries ?w = []" by (simp add: ex_workflow_fields)
  have f: "fst (binaries ?w) = [(''tool'', new_BinaryPath ex_resolver ex_validator ''tool'')]"
    by (rule ex_workflow_binaries)
  note t = C9_binaries_computed_on_first_access [OF p]
  have first: "fst (snd (binaries ?w)) = [GetResolvers, GetValidators]"
    using t [THEN conjunct1] by simp
  have "fst (binaries ?w) \<noteq> [] \<longrightarrow>
      binaries (snd (snd (binaries ?w))) = (fst (binaries ?w), [], snd (snd (binaries ?w)))"
    by (rule t [THEN conjunct2, THEN conjunct2, THEN conjunct2, THEN conjunct2, THEN conjunct1])
  then have later: "binaries (snd (snd (binaries ?w)))
      = (fst (binaries ?w), [], snd (snd (binaries ?w)))"
    by (simp add: f)
  have l1: "fst (binaries (snd (snd (binaries ?w)))) = fst (binaries ?w)"
    and l2: "fst (snd (binaries (snd (snd (binaries ?w))))) = []"
    by (simp_all add: later)
  show ?thesis
    using p first l2 by (simp add: l1 f)
qed

text \<open>
  Claim C9 as stated fails for an instance whose extension points give no resolver: the
  dictionary computed on the first read is empty, \<^verbatim>\<open>if not self._binaries\<close> holds again
  on the second read, and the two extension points are called a second time.
\<close>

theorem C9_empty_mapping_is_recomputed:
  "priv_binaries (ex_workflow_no_binaries []) = []
   \<and> get_resolvers (ex_workflow_no_binaries []) = []
   \<and> fst (snd (binaries (ex_workflow_no_binaries []))) = [GetResolvers, GetValidators]
   \<and> fst (snd (binaries (snd (snd (binaries (ex_workflow_no_binaries []))))))
       = [GetResolvers, GetValidators]"
  by (simp add: ex_workflow_no_binaries_def init_def binaries_def pair_binaries_def Let_def)

end
